theory Spec2Isabelle
  imports Main
begin

section \<open>Strings\<close>

text \<open>
  A Python string is modelled by its UTF-8 encoding, a \<open>string\<close> of bytes; the non-ASCII
  characters of the source's literals are written as their bytes. The ASCII characters are
  single bytes that occur in no other character's encoding, so \<open>split('u/')\<close>,
  \<open>startswith('u/')\<close> and a slice of hex digits act on the bytes as they act on the characters.
\<close>

text \<open>
  The characters for which \<open>str.isspace\<close> holds, each by its encoding: the ten ASCII ones
  (U+0009 to U+000D, U+001C to U+0020), U+0085, U+00A0, U+1680, U+2000 to U+200A, U+2028,
  U+2029, U+202F, U+205F and U+3000.
\<close>

definition ascii_space :: string where
  "ascii_space = [CHR 0x09, CHR 0x0A, CHR 0x0B, CHR 0x0C, CHR 0x0D,
                  CHR 0x1C, CHR 0x1D, CHR 0x1E, CHR 0x1F, CHR 0x20]"

definition whitespace :: "string list" where
  "whitespace =
     map (\<lambda>c. [c]) ascii_space @
     map (\<lambda>c. [CHR 0xC2, c]) [CHR 0x85, CHR 0xA0] @
     [CHR 0xE1, CHR 0x9A, CHR 0x80] #
     map (\<lambda>c. [CHR 0xE2, CHR 0x80, c])
       [CHR 0x80, CHR 0x81, CHR 0x82, CHR 0x83, CHR 0x84, CHR 0x85, CHR 0x86, CHR 0x87,
        CHR 0x88, CHR 0x89, CHR 0x8A, CHR 0xA8, CHR 0xA9, CHR 0xAF] @
     [CHR 0xE2, CHR 0x81, CHR 0x9F] # [CHR 0xE3, CHR 0x80, CHR 0x80] # []"

text \<open>The rest of \<open>s\<close> after the first entry of the table that \<open>s\<close> starts with.\<close>

fun match_prefix :: "string list \<Rightarrow> string \<Rightarrow> string option" where
  "match_prefix [] s = None"
| "match_prefix (p # ps) s =
     (if take (length p) s = p then Some (drop (length p) s) else match_prefix ps s)"

text \<open>
  Removes entries of the table from the front of \<open>s\<close> for as long as there is one. Every
  removal takes at least one byte, so a list as long as \<open>s\<close> is enough fuel.
\<close>

fun lstrip_with :: "string list \<Rightarrow> string \<Rightarrow> string \<Rightarrow> string" where
  "lstrip_with tab [] s = s"
| "lstrip_with tab (_ # fuel) s =
     (case match_prefix tab s of None \<Rightarrow> s | Some r \<Rightarrow> lstrip_with tab fuel r)"

text \<open>
  \<open>str.strip()\<close>: the whitespace characters at both ends go. At the end of a string the
  encodings are matched backwards; an encoding of the table that ends the string is the
  string's last character, since a character's encoding has one byte that is not a
  continuation byte, its first.
\<close>

definition strip :: "string \<Rightarrow> string" where
  "strip s =
     (let t = lstrip_with whitespace s s
      in rev (lstrip_with (map rev whitespace) t (rev t)))"

definition ascii_upper :: string where
  "ascii_upper = ''ABCDEFGHIJKLMNOPQRSTUVWXYZ''"

definition ascii_lower :: string where
  "ascii_lower = ''abcdefghijklmnopqrstuvwxyz''"

definition lower_char :: "char \<Rightarrow> char" where
  "lower_char c = (case map_of (zip ascii_upper ascii_lower) c of Some d \<Rightarrow> d | None \<Rightarrow> c)"

definition upper_char :: "char \<Rightarrow> char" where
  "upper_char c = (case map_of (zip ascii_lower ascii_upper) c of Some d \<Rightarrow> d | None \<Rightarrow> c)"

text \<open>
  \<open>str.lower()\<close> on the characters whose lower case has an ASCII character in it: A to Z,
  U+212A (the Kelvin sign, to \<open>k\<close>) and U+0130 (to \<open>i\<close> and U+0307). Any other capital is left
  as it is; its lower case is as little ASCII as the capital itself, and the scripts only
  compare a lowered string with ASCII text (the prefix \<open>u/\<close>, the lowered required names),
  so every such comparison has the outcome it has in Python.
\<close>

function lower :: "string \<Rightarrow> string" where
  "lower [] = []"
| "lower (c # cs) =
     (if c = CHR 0xE2 \<and> take 2 cs = [CHR 0x84, CHR 0xAA] then CHR ''k'' # lower (drop 2 cs)
      else if c = CHR 0xC4 \<and> take 1 cs = [CHR 0xB0]
           then CHR ''i'' # CHR 0xCC # CHR 0x87 # lower (drop 1 cs)
      else lower_char c # lower cs)"
  by pat_completeness auto
termination
  by (relation "measure length") auto

text \<open>\<open>str.upper()\<close> on ASCII; the scripts apply it to hex digits only.\<close>

definition upper :: "string \<Rightarrow> string" where
  "upper s = map upper_char s"

text \<open>
  \<open>hexdigest()\<close> of a 256-bit digest, the digest given as a number: sixty-four hex
  digits in lower case, the most significant first.
\<close>

definition hex_digit :: "nat \<Rightarrow> char" where
  "hex_digit d = ''0123456789abcdef'' ! (d mod 16)"

definition hexdigest :: "nat \<Rightarrow> string" where
  "hexdigest n = map (\<lambda>i. hex_digit (n div 16 ^ i)) (rev [0..<64])"

definition startswith :: "string \<Rightarrow> string \<Rightarrow> bool" where
  "startswith s p = (take (length p) s = p)"

text \<open>
  \<open>split_u acc s\<close> is \<open>s.split('u/')\<close>, scanning left to right; \<open>acc\<close> holds the
  current piece, reversed. The result is never empty.
\<close>

fun split_u :: "string \<Rightarrow> string \<Rightarrow> string list" where
  "split_u acc [] = [rev acc]"
| "split_u acc [c] = [rev (c # acc)]"
| "split_u acc (c # d # cs) =
     (if c = CHR ''u'' \<and> d = CHR ''/'' then rev acc # split_u [] cs
      else split_u (c # acc) (d # cs))"

text \<open>\<open>username.split('u/')[-1].strip()\<close>, the name both scripts hand to \<open>reddit.redditor\<close>.\<close>

definition redditor_name :: "string \<Rightarrow> string" where
  "redditor_name username = strip (last (split_u [] username))"

section \<open>Configuration\<close>

datatype script = Main_py | Immediate_py

definition MIN_ACCOUNT_AGE_DAYS :: int where
  "MIN_ACCOUNT_AGE_DAYS = 90"

definition MAX_DM_RETRIES :: nat where
  "MAX_DM_RETRIES = 3"

datatype colkey = Username | Dm_pref | Code | Status | Dm_status

text \<open>\<open>COLUMN_MAP\<close> of main.py and \<open>REQUIRED_COLUMNS\<close> of immediate_response_script.py
  (the same table), with the keys in the order the dict is iterated.\<close>

definition column_keys :: "colkey list" where
  "column_keys = [Username, Dm_pref, Code, Status, Dm_status]"

fun column_name :: "colkey \<Rightarrow> string" where
  "column_name Username = ''Reddit Username:''"
| "column_name Dm_pref = ''Do You Accept DM Notifications About Your Match?''"
| "column_name Code = ''Code''"
| "column_name Status = ''Status''"
| "column_name Dm_status = ''DM Status''"

definition nl :: string where
  "nl = [CHR 0x0A]"

definition accepted_prefs :: "string list" where
  "accepted_prefs =
     [''Yes, I want to receive a DM with my match'' @ [CHR 0x27] @
        ''s username, code, and the scientific reason why we were paired.'',
      ''Maybe, but only if my match is cool.'']"

definition skip_statuses :: "string list" where
  "skip_statuses = [''Processed'', ''Rejected'', ''Opted Out'']"

definition sent_marker :: string where
  "sent_marker = [CHR 0xE2, CHR 0x9C, CHR 0x85] @ '' Sent''"

definition failed_marker :: string where
  "failed_marker = [CHR 0xE2, CHR 0x9D, CHR 0x8C] @ '' Failed''"

definition subject_original :: string where
  "subject_original = [CHR 0xF0, CHR 0x9F, CHR 0x94, CHR 0x90] @ '' Your Match Code''"

definition subject_retry :: string where
  "subject_retry = [CHR 0xF0, CHR 0x9F, CHR 0x9A, CHR 0xA8] @ '' Code Redelivery!''"

definition retry_warning :: string where
  "retry_warning = nl @ nl @ [CHR 0xE2, CHR 0x9A, CHR 0xA0, CHR 0xEF, CHR 0xB8, CHR 0x8F] @
     '' Final attempt! Lose this and you get AutoModerator '' @
     [CHR 0xF0, CHR 0x9F, CHR 0xA4, CHR 0x96]"

text \<open>\<open>HUMOR\<close>: the two pools \<open>random.choice\<close> draws from.\<close>

definition humor_dm_messages :: "string list" where
  "humor_dm_messages =
     [''Your code survived 3 rounds of load shedding '' @ [CHR 0xE2, CHR 0x9A, CHR 0xA1],
      ''Approved by 9/10 street cows of Kathmandu '' @ [CHR 0xF0, CHR 0x9F, CHR 0x90, CHR 0x84],
      ''Contains pure momo energy - handle with care! '' @ [CHR 0xF0, CHR 0x9F, CHR 0xA5, CHR 0x9F]]"

definition humor_rejections :: "string list" where
  "humor_rejections =
     [''Account younger than Nepal'' @ [CHR 0x27] @ ''s average power cut '' @
        [CHR 0xE2, CHR 0x8F, CHR 0xB3],
      ''Come back after your account survives TIA WiFi '' @ [CHR 0xE2, CHR 0x98, CHR 0x95],
      ''Age requirement: Survived 5+ internet shutdowns'']"

definition rejection_msg :: "script \<Rightarrow> string \<Rightarrow> string" where
  "rejection_msg v joke =
     [CHR 0xF0, CHR 0x9F, CHR 0x9A, CHR 0xA8] @ '' Disqualified!'' @ nl @ nl @ joke @ nl @ nl @
     ''Requirements:'' @ nl @ ''- Account age '' @ [CHR 0xE2, CHR 0x89, CHR 0xA5] @ '' 90 days'' @
     (case v of Main_py \<Rightarrow> []
      | Immediate_py \<Rightarrow> nl @ ''- Minimum 1 meme posted (optional but encouraged)'')"

definition acceptance_msg :: "script \<Rightarrow> string \<Rightarrow> string \<Rightarrow> string" where
  "acceptance_msg v code joke =
     [CHR 0xF0, CHR 0x9F, CHR 0x8E, CHR 0x89] @ '' Your Match Code: '' @ code @ nl @ nl @
     [CHR 0xF0, CHR 0x9F, CHR 0x94, CHR 0xAE] @ '' How this works:'' @ nl @
     (case v of
        Main_py \<Rightarrow>
          ''1. Results in 3-5 days'' @ nl @
          ''2. Lose code = match with AutoMod'' @ nl @
          ''3. Valid during outages''
      | Immediate_py \<Rightarrow>
          ''1. Results in 3-5 days (need to consult Bagmati River dolphins '' @
            [CHR 0xF0, CHR 0x9F, CHR 0x90, CHR 0xAC] @ '')'' @ nl @
          ''2. Lose code = match with r/Nepal AutoModerator'' @ nl @
          ''3. Valid during strikes, protests, and NTC outages'') @
     nl @ nl @ joke"

section \<open>The world: spreadsheet, platform, clock\<close>

text \<open>
  What the scripts do to their collaborators is recorded in a trace. An event is logged when
  the call is issued, whether or not it raises; \<open>DM\<close> also records whether the platform
  accepted the message.
\<close>

datatype event =
    AddCols nat
  | Update nat nat "string list"
  | CellRead nat nat
  | CellWrite nat nat string
  | Lookup string
  | GenCode string
  | DM string string string bool
  | Sleep nat

datatype exn = APIError | KeyError string | ValueError string | RuntimeError string

text \<open>The answer of the account directory to \<open>reddit.redditor(name).created_utc\<close>: the creation
  time (already through \<open>datetime.fromtimestamp\<close>, in microseconds), or one of the ways the
  lookup raises.\<close>

datatype lookup = Created int | NotFound | NetworkError | RateLimited | OtherFault

text \<open>
  The sheet: \<open>header\<close> is what \<open>sheet.row_values(1)\<close> returns (no call of either script
  writes to row 1), \<open>cells\<close> the value of every other cell (\<open>None\<close> for an empty cell),
  \<open>records\<close> what \<open>sheet.get_all_records()\<close> returns, one dict per data row, the values
  already through \<open>str\<close>. \<open>clock\<close> counts the consultations of the outside world made so
  far; the environment answers each by its number.
\<close>

record world =
  header :: "string list"
  cells :: "nat \<times> nat \<Rightarrow> string option"
  records :: "(string \<rightharpoonup> string) list"
  clock :: nat
  trace :: "event list"

text \<open>
  The outside world, as the scripts consult it. What can change from one call to the next is
  indexed by the number of the consultation: whether a spreadsheet call raises
  (\<open>api_fault\<close>), what the account lookup answers, the time (\<open>utcnow\<close> in microseconds,
  \<open>now_str\<close> as \<open>str(datetime.now())\<close> prints it), whether the platform accepts a message, and
  what \<open>random.choice\<close> draws (\<open>pick\<close>). \<open>sha256\<close> is the digest of a text, as a number.
\<close>

record env =
  api_fault :: "nat \<Rightarrow> bool"
  account :: "nat \<Rightarrow> string \<Rightarrow> lookup"
  utcnow :: "nat \<Rightarrow> int"
  accepts :: "nat \<Rightarrow> string \<Rightarrow> bool"
  now_str :: "nat \<Rightarrow> string"
  sha256 :: "string \<Rightarrow> nat"
  pick :: "nat \<Rightarrow> nat"

definition tick :: "world \<Rightarrow> world" where
  "tick w = w\<lparr>clock := Suc (clock w)\<rparr>"

definition emit :: "event \<Rightarrow> world \<Rightarrow> world" where
  "emit e w = w\<lparr>trace := trace w @ [e]\<rparr>"

text \<open>\<open>time.sleep(n)\<close>\<close>

definition sleep :: "nat \<Rightarrow> world \<Rightarrow> world" where
  "sleep n w = emit (Sleep n) w"

text \<open>\<open>sheet.cell(r, c).value\<close>: raises when the API call faults.\<close>

definition cell :: "env \<Rightarrow> nat \<Rightarrow> nat \<Rightarrow> world \<Rightarrow> (exn + string option) \<times> world" where
  "cell E r c w =
     (let w' = tick (emit (CellRead r c) w)
      in if api_fault E (clock w) then (Inl APIError, w') else (Inr (cells w (r, c)), w'))"

text \<open>\<open>sheet.update_cell(r, c, v)\<close>: a call that raises leaves the cell as it was.\<close>

definition update_cell :: "env \<Rightarrow> nat \<Rightarrow> nat \<Rightarrow> string \<Rightarrow> world \<Rightarrow> (exn + unit) \<times> world" where
  "update_cell E r c v w =
     (let w' = tick (emit (CellWrite r c v) w)
      in if api_fault E (clock w) then (Inl APIError, w')
         else (Inr (), w'\<lparr>cells := (cells w)((r, c) := Some v)\<rparr>))"

text \<open>\<open>random.choice(pool)\<close> on a pool that is not empty.\<close>

definition choice :: "env \<Rightarrow> string list \<Rightarrow> world \<Rightarrow> string \<times> world" where
  "choice E pool w = (pool ! (pick E (clock w) mod length pool), tick w)"

section \<open>Core functions\<close>

definition us_per_day :: int where
  "us_per_day = 86400000000"

text \<open>
  The body of the \<open>try\<close> in \<open>is_eligible\<close>: \<open>datetime.utcnow()\<close> is evaluated first, then the
  attribute \<open>created_utc\<close> triggers the lookup; \<open>timedelta.days\<close> is the floor of the
  difference in days.
\<close>

definition is_eligible_try :: "env \<Rightarrow> string \<Rightarrow> world \<Rightarrow> (lookup + bool) \<times> world" where
  "is_eligible_try E username w =
     (let name = redditor_name username;
          now = utcnow E (clock w);
          w1 = tick w;
          w2 = tick (emit (Lookup name) w1)
      in case account E (clock w1) name of
           Created t \<Rightarrow> (Inr ((now - t) div us_per_day \<ge> MIN_ACCOUNT_AGE_DAYS), w2)
         | failure \<Rightarrow> (Inl failure, w2))"

text \<open>\<open>is_eligible\<close>: \<open>except Exception: return False\<close>.\<close>

definition is_eligible :: "env \<Rightarrow> string \<Rightarrow> world \<Rightarrow> bool \<times> world" where
  "is_eligible E username w =
     (case is_eligible_try E username w of
        (Inr b, w') \<Rightarrow> (b, w')
      | (Inl _, w') \<Rightarrow> (False, w'))"

text \<open>\<open>generate_code\<close>: the first eight hex digits of the digest of handle and time, upper-cased.\<close>

definition generate_code :: "env \<Rightarrow> string \<Rightarrow> world \<Rightarrow> string \<times> world" where
  "generate_code E username w =
     (upper (take 8 (hexdigest (sha256 E (username @ now_str E (clock w))))),
      tick (emit (GenCode username) w))"

text \<open>\<open>send_dm\<close>: the 20 units of sleep are on the success path only; a failure is caught,
  printed and returned as \<open>False\<close>.\<close>

definition send_dm :: "env \<Rightarrow> string \<Rightarrow> string \<Rightarrow> bool \<Rightarrow> world \<Rightarrow> bool \<times> world" where
  "send_dm E username message is_retry w =
     (let subject = (if is_retry then subject_retry else subject_original);
          body = (if is_retry then message @ retry_warning else message);
          name = redditor_name username;
          ok = accepts E (clock w) name;
          w' = tick (emit (DM name subject body ok) w)
      in if ok then (True, sleep 20 w') else (False, w'))"

section \<open>Sheet management\<close>

text \<open>\<open>xs.index(x)\<close>, zero-based, for an \<open>x\<close> that occurs in \<open>xs\<close>.\<close>

definition index_of :: "string list \<Rightarrow> string \<Rightarrow> nat" where
  "index_of xs x = length (takeWhile (\<lambda>y. y \<noteq> x) xs)"

text \<open>
  The required columns that \<open>setup_sheet\<close> finds missing, in the order of the table.
  main.py looks each name up in the stripped headers; immediate_response_script.py compares
  the names after \<open>strip().lower()\<close> on both sides.
\<close>

definition new_columns :: "script \<Rightarrow> string list \<Rightarrow> string list" where
  "new_columns v headers =
     (case v of
        Main_py \<Rightarrow> [column_name k. k \<leftarrow> column_keys, column_name k \<notin> set headers]
      | Immediate_py \<Rightarrow>
          [column_name k. k \<leftarrow> column_keys,
             lower (strip (column_name k)) \<notin> set (map (\<lambda>h. lower (strip h)) headers)])"

text \<open>
  The last loop of \<open>setup_sheet\<close>: every key gets \<open>headers.index(col_name) + 1\<close>, which
  replaces whatever the first loop stored for it. A name that is not in \<open>headers\<close> raises:
  \<open>ValueError\<close> in main.py, \<open>RuntimeError\<close> (the configuration error) in
  immediate_response_script.py. The returned dict has all five keys, so it is a total
  function here.
\<close>

fun final_indices :: "script \<Rightarrow> string list \<Rightarrow> colkey list \<Rightarrow> exn + unit" where
  "final_indices v headers [] = Inr ()"
| "final_indices v headers (k # ks) =
     (if column_name k \<in> set headers then final_indices v headers ks
      else (case v of
              Main_py \<Rightarrow> Inl (ValueError (column_name k))
            | Immediate_py \<Rightarrow>
                Inl (RuntimeError (''Missing critical column: '' @ [CHR 0x27] @ column_name k @ [CHR 0x27]))))"

text \<open>
  \<open>update_range\<close> is \<open>rowcol_to_a1(1, end_col+1)\<close> followed by the character 1: the label of
  the cell in row 1 with one more digit, which is the cell of the same column in row 11.
\<close>

definition update_range_row :: nat where
  "update_range_row = 11"

text \<open>\<open>sheet.add_cols(n)\<close> changes the size of the grid only.\<close>

definition add_cols :: "env \<Rightarrow> nat \<Rightarrow> world \<Rightarrow> (exn + unit) \<times> world" where
  "add_cols E n w =
     (let w' = tick (emit (AddCols n) w)
      in if api_fault E (clock w) then (Inl APIError, w') else (Inr (), w'))"

fun write_row :: "nat \<Rightarrow> nat \<Rightarrow> string list \<Rightarrow> (nat \<times> nat \<Rightarrow> string option) \<Rightarrow> (nat \<times> nat \<Rightarrow> string option)" where
  "write_row r c [] f = f"
| "write_row r c (v # vs) f = write_row r (Suc c) vs (f((r, c) := Some v))"

text \<open>\<open>sheet.update(range, [values])\<close>: one row of values, from the cell the range names.\<close>

definition update :: "env \<Rightarrow> nat \<Rightarrow> nat \<Rightarrow> string list \<Rightarrow> world \<Rightarrow> (exn + unit) \<times> world" where
  "update E r c vs w =
     (let w' = tick (emit (Update r c vs) w)
      in if api_fault E (clock w) then (Inl APIError, w')
         else (Inr (), w'\<lparr>cells := write_row r c vs (cells w)\<rparr>))"

text \<open>\<open>sheet.row_values(1)\<close>\<close>

definition row_values1 :: "env \<Rightarrow> world \<Rightarrow> (exn + string list) \<times> world" where
  "row_values1 E w =
     (if api_fault E (clock w) then (Inl APIError, tick w) else (Inr (header w), tick w))"

text \<open>The block \<open>if new_columns: ...\<close>; returns the local list \<open>headers\<close> after it.\<close>

definition create_columns :: "env \<Rightarrow> string list \<Rightarrow> string list \<Rightarrow> world \<Rightarrow> (exn + string list) \<times> world" where
  "create_columns E headers new w =
     (if new = [] then (Inr headers, w)
      else case add_cols E (length new) w of
             (Inl e, w1) \<Rightarrow> (Inl e, w1)
           | (Inr _, w1) \<Rightarrow>
               (case update E update_range_row (length headers + 1) new w1 of
                  (Inl e, w2) \<Rightarrow> (Inl e, w2)
                | (Inr _, w2) \<Rightarrow> (Inr (headers @ new), w2)))"

definition setup_sheet :: "script \<Rightarrow> env \<Rightarrow> world \<Rightarrow> (exn + (colkey \<Rightarrow> nat)) \<times> world" where
  "setup_sheet v E w =
     (case row_values1 E w of
        (Inl e, w1) \<Rightarrow> (Inl e, w1)
      | (Inr raw, w1) \<Rightarrow>
          (let headers = map strip raw
           in case create_columns E headers (new_columns v headers) w1 of
                (Inl e, w2) \<Rightarrow> (Inl e, w2)
              | (Inr headers', w2) \<Rightarrow>
                  (case final_indices v headers' column_keys of
                     Inl e \<Rightarrow> (Inl e, w2)
                   | Inr _ \<Rightarrow> (Inr (\<lambda>k. index_of headers' (column_name k) + 1), w2))))"

section \<open>Main processing\<close>

text \<open>Python's \<open>not value\<close> on a cell value: the cell is empty.\<close>

definition falsy :: "string option \<Rightarrow> bool" where
  "falsy v = (v = None \<or> v = Some [])"

text \<open>
  The retry loop over the attempts still to make. main.py is
  \<open>any(send_dm(..., attempt>0) for attempt in range(MAX_DM_RETRIES))\<close>;
  immediate_response_script.py is the \<open>for\<close> loop that breaks on success and sleeps 120
  after every failed attempt.
\<close>

fun send_with_retries :: "script \<Rightarrow> env \<Rightarrow> string \<Rightarrow> string \<Rightarrow> nat list \<Rightarrow> world \<Rightarrow> bool \<times> world" where
  "send_with_retries v E username message [] w = (False, w)"
| "send_with_retries v E username message (attempt # rest) w =
     (case send_dm E username message (attempt > 0) w of
        (True, w') \<Rightarrow> (True, w')
      | (False, w') \<Rightarrow>
          send_with_retries v E username message rest
            (case v of Main_py \<Rightarrow> w' | Immediate_py \<Rightarrow> sleep 120 w'))"

text \<open>The two writes under \<open># Update status\<close>.\<close>

definition update_status :: "env \<Rightarrow> (colkey \<Rightarrow> nat) \<Rightarrow> nat \<Rightarrow> bool \<Rightarrow> world \<Rightarrow> (exn + unit) \<times> world" where
  "update_status E col idx success w =
     (case update_cell E idx (col Status) (if success then ''Processed'' else ''Failed'') w of
        (Inl e, w1) \<Rightarrow> (Inl e, w1)
      | (Inr _, w1) \<Rightarrow>
          update_cell E idx (col Dm_status) (if success then sent_marker else failed_marker) w1)"

text \<open>From \<open># Generate/send code\<close> to the end of the \<open>try\<close> block.\<close>

definition accept_row :: "script \<Rightarrow> env \<Rightarrow> (colkey \<Rightarrow> nat) \<Rightarrow> nat \<Rightarrow> string \<Rightarrow> world \<Rightarrow> (exn + unit) \<times> world" where
  "accept_row v E col idx username w =
     (case generate_code E username w of
        (code, w1) \<Rightarrow>
          (case cell E idx (col Code) w1 of
             (Inl e, w2) \<Rightarrow> (Inl e, w2)
           | (Inr stored, w2) \<Rightarrow>
               (case (if falsy stored then update_cell E idx (col Code) code w2 else (Inr (), w2)) of
                  (Inl e, w3) \<Rightarrow> (Inl e, w3)
                | (Inr _, w3) \<Rightarrow>
                    (case choice E humor_dm_messages w3 of
                       (joke, w4) \<Rightarrow>
                         (case send_with_retries v E username (acceptance_msg v code joke)
                                 [0..<MAX_DM_RETRIES] w4 of
                            (success, w5) \<Rightarrow> update_status E col idx success w5)))))"

text \<open>The branch \<open>if not is_eligible(reddit, username)\<close>.\<close>

definition reject_row :: "script \<Rightarrow> env \<Rightarrow> (colkey \<Rightarrow> nat) \<Rightarrow> nat \<Rightarrow> string \<Rightarrow> world \<Rightarrow> (exn + unit) \<times> world" where
  "reject_row v E col idx username w =
     (case choice E humor_rejections w of
        (joke, w1) \<Rightarrow>
          (case send_dm E username (rejection_msg v joke) False w1 of
             (_, w2) \<Rightarrow> update_cell E idx (col Status) ''Rejected'' w2))"

text \<open>\<open>row.get(name, '')\<close> in both scripts for the handle and in main.py for the preference;
  \<open>row[name]\<close> (a \<open>KeyError\<close> when the key is missing) for the preference in
  immediate_response_script.py.\<close>

definition row_get :: "(string \<rightharpoonup> string) \<Rightarrow> string \<Rightarrow> string" where
  "row_get row name = (case row name of None \<Rightarrow> [] | Some x \<Rightarrow> x)"

definition row_dm_pref :: "script \<Rightarrow> (string \<rightharpoonup> string) \<Rightarrow> exn + string" where
  "row_dm_pref v row =
     (case v of
        Main_py \<Rightarrow> Inr (strip (row_get row (column_name Dm_pref)))
      | Immediate_py \<Rightarrow>
          (case row (column_name Dm_pref) of
             None \<Rightarrow> Inl (KeyError (column_name Dm_pref))
           | Some x \<Rightarrow> Inr (strip x)))"

text \<open>The body of the \<open>try\<close> of one row; \<open>continue\<close> is the normal return.\<close>

definition process_row_try :: "script \<Rightarrow> env \<Rightarrow> (colkey \<Rightarrow> nat) \<Rightarrow> nat \<Rightarrow> (string \<rightharpoonup> string) \<Rightarrow> world \<Rightarrow> (exn + unit) \<times> world" where
  "process_row_try v E col idx row w =
     (case cell E idx (col Status) w of
        (Inl e, w1) \<Rightarrow> (Inl e, w1)
      | (Inr current_status, w1) \<Rightarrow>
          if current_status \<in> Some ` set skip_statuses then (Inr (), w1)
          else (let username = strip (row_get row (column_name Username))
                in case row_dm_pref v row of
                     Inl e \<Rightarrow> (Inl e, w1)
                   | Inr dm_pref \<Rightarrow>
                       if dm_pref \<notin> set accepted_prefs
                       then update_cell E idx (col Status) ''Opted Out'' w1
                       else if \<not> startswith (lower username) ''u/''
                       then update_cell E idx (col Status) ''Invalid Format'' w1
                       else (case is_eligible E username w1 of
                               (False, w2) \<Rightarrow> reject_row v E col idx username w2
                             | (True, w2) \<Rightarrow> accept_row v E col idx username w2)))"

text \<open>One iteration of the loop: the \<open>try\<close> and its \<open>except Exception\<close>, whose own write
  is not protected.\<close>

definition process_row :: "script \<Rightarrow> env \<Rightarrow> (colkey \<Rightarrow> nat) \<Rightarrow> nat \<Rightarrow> (string \<rightharpoonup> string) \<Rightarrow> world \<Rightarrow> (exn + unit) \<times> world" where
  "process_row v E col idx row w =
     (case process_row_try v E col idx row w of
        (Inr _, w') \<Rightarrow> (Inr (), w')
      | (Inl _, w') \<Rightarrow> update_cell E idx (col Status) ''Error'' w')"

text \<open>\<open>for idx, row in enumerate(records, start=2)\<close>: an exception that leaves an iteration
  leaves the loop.\<close>

fun process_rows :: "script \<Rightarrow> env \<Rightarrow> (colkey \<Rightarrow> nat) \<Rightarrow> nat \<Rightarrow> (string \<rightharpoonup> string) list \<Rightarrow> world \<Rightarrow> (exn + unit) \<times> world" where
  "process_rows v E col idx [] w = (Inr (), w)"
| "process_rows v E col idx (row # rows) w =
     (case process_row v E col idx row w of
        (Inl e, w') \<Rightarrow> (Inl e, w')
      | (Inr _, w') \<Rightarrow> process_rows v E col (Suc idx) rows w')"

text \<open>\<open>sheet.get_all_records()\<close>\<close>

definition get_all_records :: "env \<Rightarrow> world \<Rightarrow> (exn + (string \<rightharpoonup> string) list) \<times> world" where
  "get_all_records E w =
     (if api_fault E (clock w) then (Inl APIError, tick w) else (Inr (records w), tick w))"

text \<open>What follows the construction of the clients, without any handler.\<close>

definition run_rows :: "script \<Rightarrow> env \<Rightarrow> (colkey \<Rightarrow> nat) \<Rightarrow> world \<Rightarrow> (exn + unit) \<times> world" where
  "run_rows v E col w =
     (case get_all_records E w of
        (Inl e, w1) \<Rightarrow> (Inl e, w1)
      | (Inr rs, w1) \<Rightarrow> process_rows v E col 2 rs w1)"

text \<open>
  \<open>process_responses\<close>, from the sheet being open. \<open>Inl\<close> is an exception that nothing
  catches. main.py wraps everything in \<open>except Exception\<close> (it prints and returns);
  immediate_response_script.py catches only the \<open>RuntimeError\<close> of \<open>setup_sheet\<close>.
\<close>

definition process_responses :: "script \<Rightarrow> env \<Rightarrow> world \<Rightarrow> (exn + unit) \<times> world" where
  "process_responses v E w =
     (case v of
        Main_py \<Rightarrow>
          (case setup_sheet v E w of
             (Inl e, w1) \<Rightarrow> (Inr (), w1)
           | (Inr col, w1) \<Rightarrow>
               (case run_rows v E col w1 of
                  (Inl e, w2) \<Rightarrow> (Inr (), w2)
                | (Inr _, w2) \<Rightarrow> (Inr (), w2)))
      | Immediate_py \<Rightarrow>
          (case setup_sheet v E w of
             (Inl (RuntimeError m), w1) \<Rightarrow> (Inr (), w1)
           | (Inl e, w1) \<Rightarrow> (Inl e, w1)
           | (Inr col, w1) \<Rightarrow> run_rows v E col w1))"

section \<open>Observations on a run\<close>

text \<open>
  The properties below are stated on what a row's processing adds to the trace and on the
  cells it leaves behind.
\<close>

fun is_dm :: "event \<Rightarrow> bool" where
  "is_dm (DM _ _ _ _) = True"
| "is_dm _ = False"

fun dm_ok :: "event \<Rightarrow> bool" where
  "dm_ok (DM _ _ _ ok) = ok"
| "dm_ok _ = False"


fun is_sleep :: "event \<Rightarrow> bool" where
  "is_sleep (Sleep _) = True"
| "is_sleep _ = False"

definition dm_events :: "event list \<Rightarrow> event list" where
  "dm_events evs = filter is_dm evs"

text \<open>The delivery attempts and the delays, in the order they happen.\<close>

definition schedule :: "event list \<Rightarrow> event list" where
  "schedule evs = filter (\<lambda>e. is_dm e \<or> is_sleep e) evs"

definition new_events :: "world \<Rightarrow> world \<Rightarrow> event list" where
  "new_events w w' = drop (length (trace w)) (trace w')"

text \<open>The handle of a row, as both scripts read it.\<close>

definition handle :: "(string \<rightharpoonup> string) \<Rightarrow> string" where
  "handle row = strip (row_get row (column_name Username))"

text \<open>
  A row that is not skipped, whose preference is one of the two accepted answers and whose
  handle starts with \<open>u/\<close> in either case: the conditions of \<open>process_row_try\<close> up to the
  eligibility check.
\<close>

definition passes_checks :: "script \<Rightarrow> (colkey \<Rightarrow> nat) \<Rightarrow> nat \<Rightarrow> (string \<rightharpoonup> string) \<Rightarrow> world \<Rightarrow> bool" where
  "passes_checks v col idx row w =
     (cells w (idx, col Status) \<notin> Some ` set skip_statuses \<and>
      (case row_dm_pref v row of Inl _ \<Rightarrow> False | Inr p \<Rightarrow> p \<in> set accepted_prefs) \<and>
      startswith (lower (handle row)) ''u/'')"

text \<open>The answer of \<open>is_eligible\<close> for a row whose processing starts in \<open>w\<close>: the status
  read takes one consultation, the check follows.\<close>

definition found_eligible :: "env \<Rightarrow> string \<Rightarrow> world \<Rightarrow> bool" where
  "found_eligible E username w = fst (is_eligible E username (tick w))"

text \<open>The world in which the code step of such a row starts, and the code
  \<open>generate_code\<close> returns there.\<close>

definition after_checks :: "(colkey \<Rightarrow> nat) \<Rightarrow> nat \<Rightarrow> string \<Rightarrow> world \<Rightarrow> world" where
  "after_checks col idx u w =
     tick (emit (Lookup (redditor_name u)) (tick (tick (emit (CellRead idx (col Status)) w))))"

definition code_for :: "env \<Rightarrow> (colkey \<Rightarrow> nat) \<Rightarrow> nat \<Rightarrow> string \<Rightarrow> world \<Rightarrow> string" where
  "code_for E col idx u w = fst (generate_code E u (after_checks col idx u w))"

text \<open>The number of the consultation that is the first delivery attempt of an accepted row:
  status read, time, lookup, time of the code, code read, the code write if there is one, and
  the draw of the joke come before it.\<close>

definition retry_clock :: "(colkey \<Rightarrow> nat) \<Rightarrow> nat \<Rightarrow> world \<Rightarrow> nat" where
  "retry_clock col idx w = clock w + 6 + (if falsy (cells w (idx, col Code)) then 1 else 0)"

definition delivered :: "env \<Rightarrow> (colkey \<Rightarrow> nat) \<Rightarrow> nat \<Rightarrow> string \<Rightarrow> world \<Rightarrow> bool" where
  "delivered E col idx u w =
     (accepts E (retry_clock col idx w) (redditor_name u) \<or>
      accepts E (retry_clock col idx w + 1) (redditor_name u) \<or>
      accepts E (retry_clock col idx w + 2) (redditor_name u))"

definition accept_joke :: "env \<Rightarrow> (colkey \<Rightarrow> nat) \<Rightarrow> nat \<Rightarrow> world \<Rightarrow> string" where
  "accept_joke E col idx w =
     humor_dm_messages ! (pick E (retry_clock col idx w - 1) mod length humor_dm_messages)"

definition accept_message :: "script \<Rightarrow> env \<Rightarrow> (colkey \<Rightarrow> nat) \<Rightarrow> nat \<Rightarrow> string \<Rightarrow> world \<Rightarrow> string" where
  "accept_message v E col idx u w = acceptance_msg v (code_for E col idx u w) (accept_joke E col idx w)"

text \<open>What follows a failed attempt before the next one.\<close>

definition gap :: "script \<Rightarrow> event list" where
  "gap v = (case v of Main_py \<Rightarrow> [] | Immediate_py \<Rightarrow> [Sleep 120])"

text \<open>The \<open>i\<close>-th attempt of a retry loop whose first attempt is consultation \<open>c\<close>.\<close>

definition attempt_event :: "env \<Rightarrow> string \<Rightarrow> string \<Rightarrow> nat \<Rightarrow> nat \<Rightarrow> event" where
  "attempt_event E name message c i =
     DM name (if i = 0 then subject_original else subject_retry)
        (if i = 0 then message else message @ retry_warning) (accepts E (c + i) name)"

definition retry_events :: "script \<Rightarrow> env \<Rightarrow> string \<Rightarrow> string \<Rightarrow> nat \<Rightarrow> event list" where
  "retry_events v E name message c =
     (if accepts E c name then [attempt_event E name message c 0, Sleep 20]
      else [attempt_event E name message c 0] @ gap v @
        (if accepts E (c + 1) name then [attempt_event E name message c 1, Sleep 20]
         else [attempt_event E name message c 1] @ gap v @
           (if accepts E (c + 2) name then [attempt_event E name message c 2, Sleep 20]
            else [attempt_event E name message c 2] @ gap v)))"

text \<open>
  The calls a passing, eligible row makes before its first delivery attempt are answered:
  the status read, the read of the code cell and, when that cell is empty, the write of the
  code.
\<close>

definition reaches_delivery :: "env \<Rightarrow> (colkey \<Rightarrow> nat) \<Rightarrow> nat \<Rightarrow> world \<Rightarrow> bool" where
  "reaches_delivery E col idx w =
     (\<not> api_fault E (clock w) \<and> \<not> api_fault E (clock w + 4) \<and>
      \<not> (falsy (cells w (idx, col Code)) \<and> api_fault E (clock w + 5)))"

text \<open>The number of attempts the retry loop of such a row makes.\<close>

definition attempts_made :: "env \<Rightarrow> (colkey \<Rightarrow> nat) \<Rightarrow> nat \<Rightarrow> string \<Rightarrow> world \<Rightarrow> nat" where
  "attempts_made E col idx u w =
     (if accepts E (retry_clock col idx w) (redditor_name u) then 1
      else if accepts E (retry_clock col idx w + 1) (redditor_name u) then 2 else 3)"

text \<open>
  Every spreadsheet call a passing, eligible row makes is answered: those before the
  delivery, the write of the status, which is the consultation after the last attempt, and
  the write of the delivery status after it.
\<close>

definition row_calls_answered :: "env \<Rightarrow> (colkey \<Rightarrow> nat) \<Rightarrow> nat \<Rightarrow> string \<Rightarrow> world \<Rightarrow> bool" where
  "row_calls_answered E col idx u w =
     (reaches_delivery E col idx w \<and>
      \<not> api_fault E (retry_clock col idx w + attempts_made E col idx u w) \<and>
      \<not> api_fault E (retry_clock col idx w + attempts_made E col idx u w + 1))"

text \<open>What the \<open>except\<close> handler of an iteration does, given how the \<open>try\<close> block ended.\<close>

definition handler_events :: "(colkey \<Rightarrow> nat) \<Rightarrow> nat \<Rightarrow> (exn + unit) \<Rightarrow> event list" where
  "handler_events col idx r = (case r of Inl _ \<Rightarrow> [CellWrite idx (col Status) ''Error''] | Inr _ \<Rightarrow> [])"

section \<open>Concrete sheets and environments\<close>

definition col_std :: "colkey \<Rightarrow> nat" where
  "col_std k = (case k of Username \<Rightarrow> 1 | Dm_pref \<Rightarrow> 2 | Code \<Rightarrow> 3 | Status \<Rightarrow> 4 | Dm_status \<Rightarrow> 5)"

definition row_alice :: "string \<rightharpoonup> string" where
  "row_alice = map_of [(''Reddit Username:'', ''u/alice''),
     (''Do You Accept DM Notifications About Your Match?'', ''Maybe, but only if my match is cool.'')]"

definition row_bob :: "string \<rightharpoonup> string" where
  "row_bob = map_of [(''Reddit Username:'', ''u/bob''),
     (''Do You Accept DM Notifications About Your Match?'', ''Maybe, but only if my match is cool.'')]"

text \<open>A sheet with the five headers and one row, nothing filled in yet.\<close>

definition W_alice :: world where
  "W_alice = \<lparr>header = map column_name column_keys, cells = (\<lambda>p. None), records = [row_alice],
     clock = 0, trace = []\<rparr>"


definition W_done :: world where
  "W_done = W_alice\<lparr>cells := (cells W_alice)((2, 3) := Some ''AAAA1111'', (2, 4) := Some ''Processed'',
     (2, 5) := Some sent_marker)\<rparr>"

definition W_two :: world where
  "W_two = W_alice\<lparr>records := [row_alice, row_bob]\<rparr>"

text \<open>A sheet whose third header is written in lower case.\<close>

definition W_lowercase :: world where
  "W_lowercase = W_alice\<lparr>header := [''Reddit Username:'',
     ''Do You Accept DM Notifications About Your Match?'', ''code'', ''Status'', ''DM Status'']\<rparr>"

definition W_empty :: world where
  "W_empty = \<lparr>header = map column_name column_keys, cells = (\<lambda>p. None), records = [],
     clock = 0, trace = []\<rparr>"

text \<open>An environment in which nothing fails: every account is 100 days old.\<close>

definition E_calm :: env where
  "E_calm = \<lparr>api_fault = (\<lambda>n. False), account = (\<lambda>n s. Created 0),
     utcnow = (\<lambda>n. 100 * us_per_day), accepts = (\<lambda>n s. True),
     now_str = (\<lambda>n. ''2025-01-01 00:00:00.000000''),
     sha256 = (\<lambda>s. 0), pick = (\<lambda>n. 0)\<rparr>"

text \<open>The platform refuses the messages sent before consultation 8: for \<open>W_alice\<close> the first
  delivery attempt of row 2 (consultation 7) fails and the second succeeds.\<close>

definition E_retry :: env where
  "E_retry = E_calm\<lparr>accepts := (\<lambda>n s. 8 \<le> n)\<rparr>"

text \<open>Every account is 10 days old.\<close>

definition E_young :: env where
  "E_young = E_calm\<lparr>utcnow := (\<lambda>n. 10 * us_per_day), accepts := (\<lambda>n s. False)\<rparr>"

text \<open>No account is found.\<close>

definition E_lost :: env where
  "E_lost = E_calm\<lparr>account := (\<lambda>n s. NotFound), accepts := (\<lambda>n s. False)\<rparr>"

text \<open>The spreadsheet API answers the first two calls of a run (the header row and the
  records) and fails from then on, as when a quota is used up.\<close>

definition E_down :: env where
  "E_down = E_calm\<lparr>api_fault := (\<lambda>n. 2 \<le> n)\<rparr>"

text \<open>Only the first spreadsheet call of the run fails.\<close>

definition E_read_fails :: env where
  "E_read_fails = E_calm\<lparr>api_fault := (\<lambda>n. n = 0)\<rparr>"

text \<open>Only consultation 8 fails: for \<open>W_alice\<close> the write of the final status of row 2, after
  a first delivery attempt that succeeded.\<close>

definition E_status_fails :: env where
  "E_status_fails = E_calm\<lparr>api_fault := (\<lambda>n. n = 8)\<rparr>"

text \<open>Every account is 10 days old, and only consultation 5 fails: for \<open>W_alice\<close> the write
  of \<open>Rejected\<close> to row 2.\<close>

definition E_reject_fails :: env where
  "E_reject_fails = E_young\<lparr>api_fault := (\<lambda>n. n = 5)\<rparr>"


section \<open>Evaluating the text functions\<close>

lemmas text_defs = strip_def whitespace_def ascii_space_def Let_def lower_char_def
  ascii_upper_def ascii_lower_def redditor_name_def startswith_def



section \<open>Basic facts about the world\<close>

lemma tick_simps:
  "clock (tick w) = Suc (clock w)" "trace (tick w) = trace w" "cells (tick w) = cells w"
  "header (tick w) = header w" "records (tick w) = records w"
  by (simp_all add: tick_def)

lemma emit_simps:
  "clock (emit e w) = clock w" "trace (emit e w) = trace w @ [e]" "cells (emit e w) = cells w"
  "header (emit e w) = header w" "records (emit e w) = records w"
  by (simp_all add: emit_def)

lemma sleep_simps:
  "clock (sleep n w) = clock w" "trace (sleep n w) = trace w @ [Sleep n]" "cells (sleep n w) = cells w"
  "header (sleep n w) = header w" "records (sleep n w) = records w"
  by (simp_all add: sleep_def emit_simps)

lemma plus_nums:
  "(n::nat) + 1 = Suc n" "n + 2 = Suc (Suc n)" "n + 3 = Suc (Suc (Suc n))"
  "n + 4 = Suc (Suc (Suc (Suc n)))" "n + 5 = Suc (Suc (Suc (Suc (Suc n))))"
  "n + 6 = Suc (Suc (Suc (Suc (Suc (Suc n)))))"
  by simp_all

lemma cell_returns:
  "\<not> api_fault E (clock w) \<Longrightarrow> cell E r c w = (Inr (cells w (r, c)), tick (emit (CellRead r c) w))"
  by (simp add: cell_def Let_def)

lemma update_cell_proj:
  "\<not> api_fault E (clock w) \<Longrightarrow> fst (update_cell E r c x w) = Inr ()"
  "\<not> api_fault E (clock w) \<Longrightarrow> cells (snd (update_cell E r c x w)) = (cells w)((r, c) := Some x)"
  "trace (snd (update_cell E r c x w)) = trace w @ [CellWrite r c x]"
  "clock (snd (update_cell E r c x w)) = Suc (clock w)"
  by (simp_all add: update_cell_def Let_def tick_simps emit_simps)

lemma markers_differ: "sent_marker \<noteq> failed_marker"
  by (simp add: sent_marker_def failed_marker_def)

section \<open>The eligibility check\<close>

lemma is_eligible_world:
  "snd (is_eligible E u w) = tick (emit (Lookup (redditor_name u)) (tick w))"
  "fst (is_eligible E u (tick (emit e w))) = fst (is_eligible E u (tick w))"
  by (simp_all add: is_eligible_def is_eligible_try_def Let_def tick_simps emit_simps split: lookup.splits)

section \<open>Message delivery and the retry loop\<close>

lemma upt3: "[0..<MAX_DM_RETRIES] = [0, 1, 2]"
  by (simp add: MAX_DM_RETRIES_def upt_rec)

lemma send_dm_eq:
  "send_dm E u m r w =
     (accepts E (clock w) (redditor_name u),
      (let w' = tick (emit (DM (redditor_name u) (if r then subject_retry else subject_original)
                   (if r then m @ retry_warning else m) (accepts E (clock w) (redditor_name u))) w)
       in if accepts E (clock w) (redditor_name u) then sleep 20 w' else w'))"
  by (simp add: send_dm_def Let_def)

lemma send_with_retries_three:
  "fst (send_with_retries v E u m [0..<MAX_DM_RETRIES] w) =
     (accepts E (clock w) (redditor_name u) \<or> accepts E (clock w + 1) (redditor_name u)
       \<or> accepts E (clock w + 2) (redditor_name u))"
  "trace (snd (send_with_retries v E u m [0..<MAX_DM_RETRIES] w)) =
     trace w @ retry_events v E (redditor_name u) m (clock w)"
  "cells (snd (send_with_retries v E u m [0..<MAX_DM_RETRIES] w)) = cells w"
  "clock (snd (send_with_retries v E u m [0..<MAX_DM_RETRIES] w)) =
     clock w + (if accepts E (clock w) (redditor_name u) then 1
                else if accepts E (clock w + 1) (redditor_name u) then 2 else 3)"
  by (cases v; simp add: upt3 send_dm_eq Let_def retry_events_def attempt_event_def gap_def
        tick_simps emit_simps sleep_simps)+

lemma dm_events_retry:
  "dm_events (retry_events v E n m c) =
     (if accepts E c n then [attempt_event E n m c 0]
      else if accepts E (c + 1) n then [attempt_event E n m c 0, attempt_event E n m c 1]
      else [attempt_event E n m c 0, attempt_event E n m c 1, attempt_event E n m c 2])"
  by (cases v) (simp_all add: dm_events_def retry_events_def gap_def attempt_event_def)

lemma schedule_retry: "schedule (retry_events v E n m c) = retry_events v E n m c"
  by (cases v) (simp_all add: schedule_def retry_events_def gap_def attempt_event_def)

lemma dm_events_append: "dm_events (xs @ ys) = dm_events xs @ dm_events ys"
  by (simp add: dm_events_def)

lemma schedule_append: "schedule (xs @ ys) = schedule xs @ schedule ys"
  by (simp add: schedule_def)

lemma dm_events_simps:
  "dm_events [] = []"
  "dm_events (CellRead r c # xs) = dm_events xs"
  "dm_events (CellWrite r c x # xs) = dm_events xs"
  "dm_events (Lookup n # xs) = dm_events xs"
  "dm_events (GenCode u # xs) = dm_events xs"
  "dm_events (Sleep k # xs) = dm_events xs"
  "dm_events (DM a b body d # xs) = DM a b body d # dm_events xs"
  by (simp_all add: dm_events_def)

lemma schedule_simps:
  "schedule [] = []"
  "schedule (CellRead r c # xs) = schedule xs"
  "schedule (CellWrite r c x # xs) = schedule xs"
  "schedule (Lookup n # xs) = schedule xs"
  "schedule (GenCode u # xs) = schedule xs"
  "schedule (Sleep k # xs) = Sleep k # schedule xs"
  "schedule (DM a b body d # xs) = DM a b body d # schedule xs"
  by (simp_all add: schedule_def)

section \<open>One row\<close>

lemma after_checks_simps:
  "clock (after_checks col idx u w) = clock w + 3"
  "cells (after_checks col idx u w) = cells w"
  "trace (after_checks col idx u w) = trace w @ [CellRead idx (col Status), Lookup (redditor_name u)]"
  by (simp_all add: after_checks_def tick_simps emit_simps)

lemma process_row_passes:
  assumes "\<not> api_fault E (clock w)" and "passes_checks v col idx row w"
  shows "process_row_try v E col idx row w =
     (if found_eligible E (handle row) w
      then accept_row v E col idx (handle row) (after_checks col idx (handle row) w)
      else reject_row v E col idx (handle row) (after_checks col idx (handle row) w))"
proof -
  obtain p where p: "row_dm_pref v row = Inr p" "p \<in> set accepted_prefs"
    using assms(2) by (auto simp: passes_checks_def split: sum.splits)
  have s: "cells w (idx, col Status) \<notin> Some ` set skip_statuses"
    and f: "startswith (lower (handle row)) ''u/''"
    using assms(2) by (auto simp: passes_checks_def)
  obtain b w2 where e: "is_eligible E (handle row) (tick (emit (CellRead idx (col Status)) w)) = (b, w2)"
    by (cases "is_eligible E (handle row) (tick (emit (CellRead idx (col Status)) w))")
  from e have b: "b = found_eligible E (handle row) w"
    using is_eligible_world(2) [of E "handle row" "CellRead idx (col Status)" w]
    by (simp add: found_eligible_def)
  from e have w2: "w2 = after_checks col idx (handle row) w"
    using is_eligible_world(1) [of E "handle row" "tick (emit (CellRead idx (col Status)) w)"]
    by (simp add: after_checks_def)
  show ?thesis
    using s f p e assms(1) unfolding b w2 handle_def
    by (simp add: process_row_try_def cell_returns Let_def)
qed

lemma process_row_no_raise:
  "fst (process_row_try v E col idx row w) = Inr () \<Longrightarrow>
   process_row v E col idx row w = process_row_try v E col idx row w"
  by (cases "process_row_try v E col idx row w") (auto simp: process_row_def)

subsection \<open>The rejection branch\<close>

lemma reject_row_effect:
  assumes "\<not> api_fault E (clock w + 2)"
  shows "fst (reject_row v E col idx u w) = Inr ()"
    and "trace (snd (reject_row v E col idx u w)) =
           trace w @ [DM (redditor_name u) subject_original
                        (rejection_msg v (humor_rejections ! (pick E (clock w) mod length humor_rejections)))
                        (accepts E (clock w + 1) (redditor_name u))] @
           (if accepts E (clock w + 1) (redditor_name u) then [Sleep 20] else []) @
           [CellWrite idx (col Status) ''Rejected'']"
    and "cells (snd (reject_row v E col idx u w)) = (cells w)((idx, col Status) := Some ''Rejected'')"
  using assms
  by (simp_all add: reject_row_def choice_def send_dm_eq Let_def update_cell_proj
        tick_simps emit_simps sleep_simps)

subsection \<open>The acceptance branch\<close>

lemma accept_row_effect:
  fixes E :: env and w :: world and u :: string and idx :: nat and col :: "colkey \<Rightarrow> nat" and v :: script
  assumes nf: "\<forall>n\<ge>clock w. \<not> api_fault E n"
  defines "code \<equiv> upper (take 8 (hexdigest (sha256 E (u @ now_str E (clock w)))))"
    and "k \<equiv> (if falsy (cells w (idx, col Code)) then 1 else 0 :: nat)"
  defines "msg \<equiv> acceptance_msg v code (humor_dm_messages ! (pick E (clock w + 2 + k) mod length humor_dm_messages))"
    and "rc \<equiv> clock w + 3 + k"
  defines "succ \<equiv> (accepts E rc (redditor_name u) \<or> accepts E (rc + 1) (redditor_name u) \<or> accepts E (rc + 2) (redditor_name u))"
  shows "fst (accept_row v E col idx u w) = Inr ()"
    and "trace (snd (accept_row v E col idx u w)) =
           trace w @ [GenCode u, CellRead idx (col Code)] @
           (if falsy (cells w (idx, col Code)) then [CellWrite idx (col Code) code] else []) @
           retry_events v E (redditor_name u) msg rc @
           [CellWrite idx (col Status) (if succ then ''Processed'' else ''Failed''),
            CellWrite idx (col Dm_status) (if succ then sent_marker else failed_marker)]"
    and "cells (snd (accept_row v E col idx u w)) =
           ((if falsy (cells w (idx, col Code)) then (cells w)((idx, col Code) := Some code) else cells w)
              ((idx, col Status) := Some (if succ then ''Processed'' else ''Failed'')))
              ((idx, col Dm_status) := Some (if succ then sent_marker else failed_marker))"
proof -
  have nf': "\<And>n. clock w \<le> n \<Longrightarrow> api_fault E n = False" using nf by simp
  show "fst (accept_row v E col idx u w) = Inr ()"
    by (simp add: accept_row_def generate_code_def cell_def update_cell_def choice_def update_status_def
          Let_def split_beta send_with_retries_three tick_simps emit_simps nf')
  show "trace (snd (accept_row v E col idx u w)) =
           trace w @ [GenCode u, CellRead idx (col Code)] @
           (if falsy (cells w (idx, col Code)) then [CellWrite idx (col Code) code] else []) @
           retry_events v E (redditor_name u) msg rc @
           [CellWrite idx (col Status) (if succ then ''Processed'' else ''Failed''),
            CellWrite idx (col Dm_status) (if succ then sent_marker else failed_marker)]"
    unfolding code_def k_def msg_def rc_def succ_def
    by (simp add: accept_row_def generate_code_def cell_def update_cell_def choice_def update_status_def
          Let_def split_beta send_with_retries_three tick_simps emit_simps nf' plus_nums)
  show "cells (snd (accept_row v E col idx u w)) =
           ((if falsy (cells w (idx, col Code)) then (cells w)((idx, col Code) := Some code) else cells w)
              ((idx, col Status) := Some (if succ then ''Processed'' else ''Failed'')))
              ((idx, col Dm_status) := Some (if succ then sent_marker else failed_marker))"
    unfolding code_def k_def msg_def rc_def succ_def
    by (simp add: accept_row_def generate_code_def cell_def update_cell_def choice_def update_status_def
          Let_def split_beta send_with_retries_three tick_simps emit_simps nf' plus_nums)
qed

lemma process_row_accepted:
  assumes nf: "\<forall>n\<ge>clock w. \<not> api_fault E n"
    and pc: "passes_checks v col idx row w"
    and el: "found_eligible E (handle row) w"
  shows "process_row v E col idx row w = accept_row v E col idx (handle row) (after_checks col idx (handle row) w)"
proof -
  have nf0: "\<not> api_fault E (clock w)" using nf by simp
  have nf3: "\<forall>n\<ge>clock (after_checks col idx (handle row) w). \<not> api_fault E n"
    using nf by (simp add: after_checks_simps)
  have t: "process_row_try v E col idx row w =
           accept_row v E col idx (handle row) (after_checks col idx (handle row) w)"
    using process_row_passes [OF nf0 pc] el by simp
  have "fst (process_row_try v E col idx row w) = Inr ()"
    unfolding t by (rule accept_row_effect(1) [OF nf3])
  from process_row_no_raise [OF this] t show ?thesis by simp
qed

lemma accepted_row:
  assumes nf: "\<forall>n\<ge>clock w. \<not> api_fault E n"
    and pc: "passes_checks v col idx row w"
    and el: "found_eligible E (handle row) w"
  shows "fst (process_row v E col idx row w) = Inr ()"
    and "new_events w (snd (process_row v E col idx row w)) =
        [CellRead idx (col Status), Lookup (redditor_name (handle row)), GenCode (handle row),
         CellRead idx (col Code)] @
        (if falsy (cells w (idx, col Code))
         then [CellWrite idx (col Code) (code_for E col idx (handle row) w)] else []) @
        retry_events v E (redditor_name (handle row)) (accept_message v E col idx (handle row) w)
           (retry_clock col idx w) @
        [CellWrite idx (col Status) (if delivered E col idx (handle row) w then ''Processed'' else ''Failed''),
         CellWrite idx (col Dm_status) (if delivered E col idx (handle row) w then sent_marker else failed_marker)]"
    and "cells (snd (process_row v E col idx row w)) =
        ((if falsy (cells w (idx, col Code))
          then (cells w)((idx, col Code) := Some (code_for E col idx (handle row) w)) else cells w)
           ((idx, col Status) := Some (if delivered E col idx (handle row) w then ''Processed'' else ''Failed'')))
           ((idx, col Dm_status) := Some (if delivered E col idx (handle row) w then sent_marker else failed_marker))"
proof -
  have nf3: "\<forall>n\<ge>clock (after_checks col idx (handle row) w). \<not> api_fault E n"
    using nf by (simp add: after_checks_simps)
  show "fst (process_row v E col idx row w) = Inr ()"
    unfolding process_row_accepted [OF nf pc el] by (rule accept_row_effect(1) [OF nf3])
  show "new_events w (snd (process_row v E col idx row w)) =
        [CellRead idx (col Status), Lookup (redditor_name (handle row)), GenCode (handle row),
         CellRead idx (col Code)] @
        (if falsy (cells w (idx, col Code))
         then [CellWrite idx (col Code) (code_for E col idx (handle row) w)] else []) @
        retry_events v E (redditor_name (handle row)) (accept_message v E col idx (handle row) w)
           (retry_clock col idx w) @
        [CellWrite idx (col Status) (if delivered E col idx (handle row) w then ''Processed'' else ''Failed''),
         CellWrite idx (col Dm_status) (if delivered E col idx (handle row) w then sent_marker else failed_marker)]"
    unfolding process_row_accepted [OF nf pc el] new_events_def accept_row_effect(2) [OF nf3]
    by (simp add: after_checks_simps code_for_def generate_code_def plus_nums retry_clock_def
          delivered_def accept_message_def accept_joke_def)
  show "cells (snd (process_row v E col idx row w)) =
        ((if falsy (cells w (idx, col Code))
          then (cells w)((idx, col Code) := Some (code_for E col idx (handle row) w)) else cells w)
           ((idx, col Status) := Some (if delivered E col idx (handle row) w then ''Processed'' else ''Failed'')))
           ((idx, col Dm_status) := Some (if delivered E col idx (handle row) w then sent_marker else failed_marker))"
    unfolding process_row_accepted [OF nf pc el] accept_row_effect(3) [OF nf3]
    by (simp add: after_checks_simps code_for_def generate_code_def plus_nums retry_clock_def
          delivered_def)
qed

lemma accepted_schedule:
  assumes nf: "\<forall>n\<ge>clock w. \<not> api_fault E n"
    and pc: "passes_checks v col idx row w"
    and el: "found_eligible E (handle row) w"
  shows "schedule (new_events w (snd (process_row v E col idx row w))) =
           retry_events v E (redditor_name (handle row))
              (accept_message v E col idx (handle row) w) (retry_clock col idx w)"
  unfolding accepted_row(2) [OF nf pc el]
  by (simp add: schedule_append schedule_simps schedule_retry)

subsection \<open>The concrete rows\<close>

lemma alice_passes: "passes_checks v col_std 2 row_alice W_alice"
  by (cases v)
     (simp_all add: passes_checks_def W_alice_def skip_statuses_def row_dm_pref_def row_get_def row_alice_def
        accepted_prefs_def handle_def text_defs)

lemma alice_handle: "handle row_alice = ''u/alice''" "redditor_name ''u/alice'' = ''alice''"
  by (simp_all add: handle_def row_get_def row_alice_def text_defs)

lemma col_std_simps:
  "col_std Username = 1" "col_std Dm_pref = 2" "col_std Code = 3" "col_std Status = 4"
  "col_std Dm_status = 5"
  by (simp_all add: col_std_def)

lemma calm_eligible: "found_eligible E_calm ''u/alice'' W_alice" "found_eligible E_retry ''u/alice'' W_alice"
  by (simp_all add: found_eligible_def is_eligible_def is_eligible_try_def Let_def tick_simps
        E_calm_def E_retry_def W_alice_def us_per_day_def MIN_ACCOUNT_AGE_DAYS_def)

lemma young_ineligible: "\<not> found_eligible E_young ''u/alice'' W_alice"
  by (simp add: found_eligible_def is_eligible_def is_eligible_try_def Let_def tick_simps
        E_calm_def E_young_def W_alice_def us_per_day_def MIN_ACCOUNT_AGE_DAYS_def)

section \<open>Rows under spreadsheet faults\<close>


lemma update_status_trace:
  "trace (snd (update_status E col idx b w)) =
     trace w @ CellWrite idx (col Status) (if b then ''Processed'' else ''Failed'') #
       (if api_fault E (clock w) then []
        else [CellWrite idx (col Dm_status) (if b then sent_marker else failed_marker)])"
  by (simp add: update_status_def update_cell_def Let_def tick_simps emit_simps)


lemma accept_row_trace:
  fixes E :: env and w :: world and u :: string and idx :: nat and col :: "colkey \<Rightarrow> nat" and v :: script
  defines "code \<equiv> fst (generate_code E u w)"
    and "old \<equiv> cells w (idx, col Code)"
  defines "k \<equiv> (if falsy old then 1 else 0 :: nat)"
  defines "msg \<equiv> acceptance_msg v code (humor_dm_messages ! (pick E (clock w + 2 + k) mod length humor_dm_messages))"
    and "rc \<equiv> clock w + 3 + k"
  defines "succ \<equiv> (accepts E rc (redditor_name u) \<or> accepts E (rc + 1) (redditor_name u) \<or> accepts E (rc + 2) (redditor_name u))"
    and "n \<equiv> (if accepts E rc (redditor_name u) then 1 else if accepts E (rc + 1) (redditor_name u) then 2 else 3 :: nat)"
  shows "trace (snd (accept_row v E col idx u w)) =
           trace w @ GenCode u # CellRead idx (col Code) #
           (if api_fault E (clock w + 1) then []
            else (if falsy old then [CellWrite idx (col Code) code] else []) @
                 (if falsy old \<and> api_fault E (clock w + 2) then []
                  else retry_events v E (redditor_name u) msg rc @
                       CellWrite idx (col Status) (if succ then ''Processed'' else ''Failed'') #
                       (if api_fault E (rc + n) then []
                        else [CellWrite idx (col Dm_status) (if succ then sent_marker else failed_marker)])))"
  unfolding code_def old_def k_def msg_def rc_def succ_def n_def
  by (simp add: accept_row_def generate_code_def cell_def update_cell_def choice_def
        Let_def split_beta send_with_retries_three tick_simps emit_simps update_status_trace plus_nums)


lemma process_row_read_fault:
  "api_fault E (clock w) \<Longrightarrow>
   process_row v E col idx row w =
     update_cell E idx (col Status) ''Error'' (tick (emit (CellRead idx (col Status)) w))"
  by (simp add: process_row_def process_row_try_def cell_def Let_def)

lemma process_row_handler:
  "trace (snd (process_row v E col idx row w)) =
     trace (snd (process_row_try v E col idx row w)) @
     handler_events col idx (fst (process_row_try v E col idx row w))"
  "p \<noteq> (idx, col Status) \<Longrightarrow>
   cells (snd (process_row v E col idx row w)) p = cells (snd (process_row_try v E col idx row w)) p"
  by (cases "process_row_try v E col idx row w"; cases "fst (process_row_try v E col idx row w)";
      simp add: process_row_def handler_events_def update_cell_def Let_def tick_simps emit_simps)+

lemma dm_events_handler: "dm_events (handler_events col idx r) = []"
  by (cases r) (simp_all add: handler_events_def dm_events_simps)

lemma process_row_sheet_down:
  assumes "api_fault E (clock w)" and "api_fault E (Suc (clock w))"
  shows "process_row v E col idx row w =
           (Inl APIError, tick (emit (CellWrite idx (col Status) ''Error'')
                            (tick (emit (CellRead idx (col Status)) w))))"
  using assms
  by (simp add: process_row_def process_row_try_def cell_def update_cell_def Let_def tick_simps emit_simps)

lemma accepted_row_events:
  assumes f0: "\<not> api_fault E (clock w)"
    and pc: "passes_checks v col idx row w"
    and el: "found_eligible E (handle row) w"
  shows "new_events w (snd (process_row v E col idx row w)) =
     [CellRead idx (col Status), Lookup (redditor_name (handle row)), GenCode (handle row),
      CellRead idx (col Code)] @
     (if api_fault E (clock w + 4) then []
      else (if falsy (cells w (idx, col Code))
            then [CellWrite idx (col Code) (code_for E col idx (handle row) w)] else []) @
           (if falsy (cells w (idx, col Code)) \<and> api_fault E (clock w + 5) then []
            else retry_events v E (redditor_name (handle row))
                   (accept_message v E col idx (handle row) w) (retry_clock col idx w) @
                 CellWrite idx (col Status)
                   (if delivered E col idx (handle row) w then ''Processed'' else ''Failed'') #
                 (if api_fault E (retry_clock col idx w + attempts_made E col idx (handle row) w)
                  then []
                  else [CellWrite idx (col Dm_status)
                          (if delivered E col idx (handle row) w then sent_marker else failed_marker)]))) @
     handler_events col idx (fst (process_row_try v E col idx row w))"
proof -
  have t: "process_row_try v E col idx row w =
           accept_row v E col idx (handle row) (after_checks col idx (handle row) w)"
    using process_row_passes [OF f0 pc] el by simp
  show ?thesis
    unfolding new_events_def process_row_handler(1)
    unfolding t accept_row_trace
    by (simp add: after_checks_simps code_for_def plus_nums retry_clock_def delivered_def
          accept_message_def accept_joke_def attempts_made_def)
qed

lemma rejected_row_events:
  assumes f0: "\<not> api_fault E (clock w)"
    and pc: "passes_checks v col idx row w"
    and el: "\<not> found_eligible E (handle row) w"
  shows "new_events w (snd (process_row v E col idx row w)) =
     [CellRead idx (col Status), Lookup (redditor_name (handle row)),
      DM (redditor_name (handle row)) subject_original
         (rejection_msg v (humor_rejections ! (pick E (clock w + 3) mod length humor_rejections)))
         (accepts E (clock w + 4) (redditor_name (handle row)))] @
     (if accepts E (clock w + 4) (redditor_name (handle row)) then [Sleep 20] else []) @
     [CellWrite idx (col Status) ''Rejected''] @
     handler_events col idx (fst (process_row_try v E col idx row w))"
proof -
  have t: "process_row_try v E col idx row w =
           reject_row v E col idx (handle row) (after_checks col idx (handle row) w)"
    using process_row_passes [OF f0 pc] el by simp
  show ?thesis
    unfolding new_events_def process_row_handler(1)
    unfolding t
    by (simp add: reject_row_def choice_def send_dm_eq Let_def update_cell_proj
          tick_simps emit_simps sleep_simps after_checks_simps plus_nums)
qed

lemma rejected_row_answered:
  assumes nf0: "\<not> api_fault E (clock w)"
    and nf5: "\<not> api_fault E (clock w + 5)"
    and pc: "passes_checks v col idx row w"
    and el: "\<not> found_eligible E (handle row) w"
  shows "fst (process_row v E col idx row w) = Inr ()"
    and "cells (snd (process_row v E col idx row w)) = (cells w)((idx, col Status) := Some ''Rejected'')"
proof -
  have nf: "\<not> api_fault E (clock (after_checks col idx (handle row) w) + 2)"
    using nf5 by (simp add: after_checks_simps plus_nums)
  have t: "process_row_try v E col idx row w =
           reject_row v E col idx (handle row) (after_checks col idx (handle row) w)"
    using process_row_passes [OF nf0 pc] el by simp
  have "fst (process_row_try v E col idx row w) = Inr ()"
    unfolding t by (rule reject_row_effect(1) [OF nf])
  from process_row_no_raise [OF this] t
  have r: "process_row v E col idx row w =
           reject_row v E col idx (handle row) (after_checks col idx (handle row) w)" by simp
  show "fst (process_row v E col idx row w) = Inr ()"
    unfolding r by (rule reject_row_effect(1) [OF nf])
  show "cells (snd (process_row v E col idx row w)) = (cells w)((idx, col Status) := Some ''Rejected'')"
    unfolding r reject_row_effect(3) [OF nf] by (simp add: after_checks_simps)
qed

lemma accepted_row_dms:
  assumes pc: "passes_checks v col idx row w"
    and el: "found_eligible E (handle row) w"
  shows "dm_events (new_events w (snd (process_row v E col idx row w))) =
           (if reaches_delivery E col idx w
            then dm_events (retry_events v E (redditor_name (handle row))
                   (accept_message v E col idx (handle row) w) (retry_clock col idx w))
            else [])"
proof (cases "api_fault E (clock w)")
  case True
  then show ?thesis
    unfolding process_row_read_fault [OF True]
    by (simp add: new_events_def update_cell_proj tick_simps emit_simps dm_events_simps
          reaches_delivery_def)
next
  case False
  show ?thesis
    unfolding accepted_row_events [OF False pc el]
    using False
    by (simp add: dm_events_append dm_events_simps dm_events_handler reaches_delivery_def)
qed


lemma accepted_row_answered:
  assumes pc: "passes_checks v col idx row w"
    and el: "found_eligible E (handle row) w"
    and ra: "row_calls_answered E col idx (handle row) w"
  shows "fst (process_row v E col idx row w) = Inr ()"
    and "cells (snd (process_row v E col idx row w)) =
        ((if falsy (cells w (idx, col Code))
          then (cells w)((idx, col Code) := Some (code_for E col idx (handle row) w)) else cells w)
           ((idx, col Status) := Some (if delivered E col idx (handle row) w then ''Processed'' else ''Failed'')))
           ((idx, col Dm_status) := Some (if delivered E col idx (handle row) w then sent_marker else failed_marker))"
proof -
  have f0: "\<not> api_fault E (clock w)" using ra by (simp add: row_calls_answered_def reaches_delivery_def)
  have t: "process_row_try v E col idx row w =
           accept_row v E col idx (handle row) (after_checks col idx (handle row) w)"
    using process_row_passes [OF f0 pc] el by simp
  let ?u = "handle row"
  let ?w = "after_checks col idx ?u w"
  have a: "fst (accept_row v E col idx ?u ?w) = Inr () \<and>
        cells (snd (accept_row v E col idx ?u ?w)) =
        ((if falsy (cells w (idx, col Code))
          then (cells w)((idx, col Code) := Some (code_for E col idx ?u w)) else cells w)
           ((idx, col Status) := Some (if delivered E col idx ?u w then ''Processed'' else ''Failed'')))
           ((idx, col Dm_status) := Some (if delivered E col idx ?u w then sent_marker else failed_marker))"
    using ra
    by (cases "falsy (cells w (idx, col Code))";
        cases "accepts E (retry_clock col idx w) (redditor_name ?u)";
        cases "accepts E (retry_clock col idx w + 1) (redditor_name ?u)";
        simp add: row_calls_answered_def reaches_delivery_def attempts_made_def retry_clock_def
          delivered_def code_for_def
          accept_row_def generate_code_def cell_def update_cell_def choice_def update_status_def
          Let_def split_beta send_with_retries_three tick_simps emit_simps after_checks_simps plus_nums)
  from a have "fst (process_row_try v E col idx row w) = Inr ()" unfolding t by simp
  from process_row_no_raise [OF this] have p: "process_row v E col idx row w = accept_row v E col idx ?u ?w"
    unfolding t .
  from a show "fst (process_row v E col idx row w) = Inr ()" unfolding p by simp
  from a show "cells (snd (process_row v E col idx row w)) =
        ((if falsy (cells w (idx, col Code))
          then (cells w)((idx, col Code) := Some (code_for E col idx (handle row) w)) else cells w)
           ((idx, col Status) := Some (if delivered E col idx (handle row) w then ''Processed'' else ''Failed'')))
           ((idx, col Dm_status) := Some (if delivered E col idx (handle row) w then sent_marker else failed_marker))"
    unfolding p by simp
qed

lemma reaches_delivery_answered:
  "row_calls_answered E col idx u w \<Longrightarrow> reaches_delivery E col idx w"
  by (simp add: row_calls_answered_def)







section \<open>Cells a run leaves alone\<close>









section \<open>The column map\<close>

lemma index_of_Cons: "index_of (a # xs) x = (if a = x then 0 else Suc (index_of xs x))"
  by (simp add: index_of_def)

lemma index_of_nth: "x \<in> set xs \<Longrightarrow> xs ! index_of xs x = x"
proof (induction xs)
  case Nil
  then show ?case by simp
next
  case (Cons a xs)
  show ?case
  proof (cases "a = x")
    case True
    then show ?thesis by (simp add: index_of_Cons)
  next
    case False
    with Cons.prems have "x \<in> set xs" by simp
    with Cons.IH False show ?thesis by (simp add: index_of_Cons)
  qed
qed

lemma index_of_inj:
  assumes "x \<in> set xs" and "y \<in> set xs" and "index_of xs x = index_of xs y"
  shows "x = y"
proof -
  have "x = xs ! index_of xs x" using index_of_nth [OF assms(1)] by (rule sym)
  also have "\<dots> = xs ! index_of xs y" by (simp only: assms(3))
  also have "\<dots> = y" by (rule index_of_nth [OF assms(2)])
  finally show ?thesis .
qed

lemma final_indices_ok:
  "final_indices v headers ks = Inr () \<Longrightarrow> k \<in> set ks \<Longrightarrow> column_name k \<in> set headers"
  by (induction ks) (auto split: if_splits script.splits)

lemma column_name_inj: "column_name j = column_name k \<Longrightarrow> j = k"
  by (cases j; cases k; simp)

lemma setup_sheet_distinct:
  assumes "fst (setup_sheet v E w) = Inr col" and "j \<noteq> k"
  shows "col j \<noteq> col k"
proof -
  obtain headers where f: "final_indices v headers column_keys = Inr ()"
    and c: "col = (\<lambda>k. index_of headers (column_name k) + 1)"
    using assms(1)
    by (auto simp: setup_sheet_def Let_def split: prod.splits sum.splits)
  have m: "column_name k \<in> set headers" for k
    using final_indices_ok [OF f, of k] by (cases k) (simp_all add: column_keys_def)
  show ?thesis
  proof
    assume "col j = col k"
    then have "index_of headers (column_name j) = index_of headers (column_name k)"
      by (simp add: c)
    from index_of_inj [OF m m this] have "column_name j = column_name k" .
    with column_name_inj assms(2) show False by blast
  qed
qed

lemma std_headers_stripped: "map strip (map column_name column_keys) = map column_name column_keys"
  by (simp add: column_keys_def text_defs)

lemma std_names_lower:
  "map (\<lambda>k. lower (strip (column_name k))) column_keys =
     [''reddit username:'', ''do you accept dm notifications about your match?'', ''code'',
      ''status'', ''dm status'']"
  by (simp add: column_keys_def text_defs)

lemma new_columns_immediate:
  "new_columns Immediate_py headers =
     map fst (filter (\<lambda>p. snd p \<notin> set (map (\<lambda>h. lower (strip h)) headers))
        (zip (map column_name column_keys) (map (\<lambda>k. lower (strip (column_name k))) column_keys)))"
  by (simp add: new_columns_def column_keys_def)

lemma new_columns_std: "new_columns v (map column_name column_keys) = []"
proof (cases v)
  case Main_py
  then show ?thesis by (simp add: new_columns_def column_keys_def)
next
  case Immediate_py
  have "map (\<lambda>h. lower (strip h)) (map column_name column_keys) =
        map (\<lambda>k. lower (strip (column_name k))) column_keys" by (simp add: comp_def)
  then show ?thesis
    unfolding Immediate_py new_columns_immediate std_names_lower
    by (simp add: column_keys_def)
qed

lemma final_indices_std: "final_indices v (map column_name column_keys) column_keys = Inr ()"
  by (simp add: column_keys_def)

lemma index_std: "(\<lambda>k. Suc (index_of (map column_name column_keys) (column_name k))) = col_std"
proof
  fix k show "Suc (index_of (map column_name column_keys) (column_name k)) = col_std k"
    by (cases k) (simp_all add: index_of_def column_keys_def col_std_def)
qed

lemma setup_sheet_std:
  assumes "header w = map column_name column_keys" and "\<not> api_fault E (clock w)"
  shows "setup_sheet v E w = (Inr col_std, tick w)"
  using assms
  by (simp add: setup_sheet_def row_values1_def std_headers_stripped new_columns_std
        create_columns_def final_indices_std index_std Let_def del: map_map)


subsection \<open>A header in lower case\<close>

lemma lowercase_stripped: "map strip (header W_lowercase) = header W_lowercase"
  by (simp add: W_lowercase_def text_defs)

lemma lowercase_lower:
  "map (\<lambda>h. lower (strip h)) (header W_lowercase) =
     [''reddit username:'', ''do you accept dm notifications about your match?'', ''code'',
      ''status'', ''dm status'']"
  by (simp add: W_lowercase_def text_defs)

lemma lowercase_new_immediate: "new_columns Immediate_py (header W_lowercase) = []"
  unfolding new_columns_immediate std_names_lower lowercase_lower
  by (simp add: column_keys_def)

lemma lowercase_new_main: "new_columns Main_py (header W_lowercase) = [''Code'']"
  by (simp add: new_columns_def column_keys_def W_lowercase_def)

lemma lowercase_final_immediate:
  "final_indices Immediate_py (header W_lowercase) column_keys =
     Inl (RuntimeError (''Missing critical column: '' @ [CHR 0x27] @ ''Code'' @ [CHR 0x27]))"
  by (simp add: column_keys_def W_lowercase_def)

lemma lowercase_final_main:
  "final_indices Main_py (header W_lowercase @ [''Code'']) column_keys = Inr ()"
  "map (\<lambda>k. Suc (index_of (header W_lowercase @ [''Code'']) (column_name k))) column_keys = [1, 2, 6, 4, 5]"
  "length (header W_lowercase) = 5"
  by (simp_all add: column_keys_def W_lowercase_def index_of_def)


subsection \<open>More on the concrete rows\<close>

lemma alice_retry_clock: "retry_clock col_std 2 W_alice = 7"
  by (simp add: retry_clock_def W_alice_def falsy_def)

lemma old_enough:
  assumes "account E = (\<lambda>n s. Created 0)" and "utcnow E = (\<lambda>n. 100 * us_per_day)"
  shows "found_eligible E u w"
  using assms
  by (simp add: found_eligible_def is_eligible_def is_eligible_try_def Let_def tick_simps
        us_per_day_def MIN_ACCOUNT_AGE_DAYS_def)



lemma alice_setup: "fst (setup_sheet v E_calm W_alice) = Inr col_std"
proof -
  have "setup_sheet v E_calm W_alice = (Inr col_std, tick W_alice)"
    by (rule setup_sheet_std) (simp_all add: W_alice_def E_calm_def)
  then show ?thesis by simp
qed

section \<open>The claims\<close>

text \<open>
  C1, with the condition the code needs. A row whose status cell holds \<open>Processed\<close>,
  \<open>Rejected\<close> or \<open>Opted Out\<close> when its processing starts, and whose status read the
  spreadsheet answers, is left as it is: the only thing the iteration does is that read. No
  cell changes (status, code and delivery status included), and the trace gets no write, no
  lookup, no code generation and no message.
\<close>

theorem skip_row_untouched:
  assumes "\<not> api_fault E (clock w)"
    and "cells w (idx, col Status) \<in> Some ` set skip_statuses"
  shows "process_row v E col idx row w = (Inr (), tick (emit (CellRead idx (col Status)) w)) \<and>
         cells (snd (process_row v E col idx row w)) = cells w \<and>
         new_events w (snd (process_row v E col idx row w)) = [CellRead idx (col Status)]"
  using assms
  by (simp add: process_row_def process_row_try_def cell_returns tick_simps emit_simps new_events_def)

theorem skip_row_untouched_witness:
  "cells W_done (2, col_std Status) = Some ''Processed'' \<and>
   cells (snd (process_row Main_py E_calm col_std 2 row_alice W_done)) = cells W_done \<and>
   new_events W_done (snd (process_row Main_py E_calm col_std 2 row_alice W_done)) =
     [CellRead 2 (col_std Status)]"
proof -
  have a: "\<not> api_fault E_calm (clock W_done)" by (simp add: E_calm_def)
  have b: "cells W_done (2, col_std Status) = Some ''Processed''"
    by (simp add: W_done_def W_alice_def col_std_def)
  have c: "cells W_done (2, col_std Status) \<in> Some ` set skip_statuses"
    unfolding b by (simp add: skip_statuses_def)
  from skip_row_untouched [where col = col_std and v = Main_py and row = row_alice, OF a c] b
  show ?thesis by blast
qed

text \<open>
  C1 as it is stated fails when the status read raises: the read is inside the \<open>try\<close>, so
  the handler of the iteration writes \<open>Error\<close> over the \<open>Processed\<close> of a finished row.
\<close>

theorem skip_row_read_fault:
  "cells W_done (2, 4) = Some ''Processed'' \<and>
   new_events W_done (snd (process_row Main_py E_read_fails col_std 2 row_alice W_done)) =
     [CellRead 2 4, CellWrite 2 4 ''Error''] \<and>
   cells (snd (process_row Main_py E_read_fails col_std 2 row_alice W_done)) (2, 4) = Some ''Error''"
proof -
  have f: "api_fault E_read_fails (clock W_done)"
    by (simp add: E_read_fails_def W_done_def W_alice_def)
  show ?thesis
    unfolding process_row_read_fault [OF f]
    by (simp add: new_events_def update_cell_def Let_def tick_def emit_def col_std_def
          E_read_fails_def W_done_def W_alice_def)
qed

text \<open>
  C2, with the condition the code needs. For a row that passes the preference, format and
  eligibility checks, with the column map the resolver returned, whatever the spreadsheet
  and the platform do: at most \<open>MAX_DM_RETRIES\<close> deliveries are attempted, and only the last
  of them can have succeeded. If every spreadsheet call made for the row is answered, at
  least one delivery is attempted, the status written is \<open>Processed\<close> if one succeeded and
  \<open>Failed\<close> if none did, and the delivery status is the success marker exactly when one
  succeeded (the failure marker otherwise).
\<close>

theorem delivery_attempts_and_status:
  assumes cm: "fst (setup_sheet v0 E0 w0) = Inr col"
    and pc: "passes_checks v col idx row w"
    and el: "found_eligible E (handle row) w"
  shows "let w' = snd (process_row v E col idx row w);
             dms = dm_events (new_events w w');
             success = (\<exists>e\<in>set dms. dm_ok e)
         in length dms \<le> MAX_DM_RETRIES \<and> (\<forall>e\<in>set (butlast dms). \<not> dm_ok e) \<and>
            (row_calls_answered E col idx (handle row) w \<longrightarrow>
               dms \<noteq> [] \<and>
               cells w' (idx, col Status) = Some (if success then ''Processed'' else ''Failed'') \<and>
               cells w' (idx, col Dm_status) = Some (if success then sent_marker else failed_marker) \<and>
               (cells w' (idx, col Dm_status) = Some sent_marker \<longleftrightarrow> success))"
proof -
  let ?w' = "snd (process_row v E col idx row w)"
  let ?dms = "dm_events (new_events w ?w')"
  have cols: "col Status \<noteq> col Dm_status"
    using setup_sheet_distinct [OF cm] by simp
  have a: "length ?dms \<le> MAX_DM_RETRIES \<and> (\<forall>e\<in>set (butlast ?dms). \<not> dm_ok e)"
    unfolding accepted_row_dms [OF pc el] dm_events_retry
    by (simp add: attempt_event_def MAX_DM_RETRIES_def)
  have b: "?dms \<noteq> [] \<and>
        cells ?w' (idx, col Status) = Some (if (\<exists>e\<in>set ?dms. dm_ok e) then ''Processed'' else ''Failed'') \<and>
        cells ?w' (idx, col Dm_status) = Some (if (\<exists>e\<in>set ?dms. dm_ok e) then sent_marker else failed_marker) \<and>
        (cells ?w' (idx, col Dm_status) = Some sent_marker \<longleftrightarrow> (\<exists>e\<in>set ?dms. dm_ok e))"
    if ra: "row_calls_answered E col idx (handle row) w"
    unfolding accepted_row_dms [OF pc el] accepted_row_answered(2) [OF pc el ra] dm_events_retry
    using cols reaches_delivery_answered [OF ra]
    by (simp add: attempt_event_def delivered_def markers_differ markers_differ [symmetric])
  from a b show ?thesis unfolding Let_def by blast
qed

theorem delivery_attempts_and_status_witness:
  "fst (setup_sheet Immediate_py E_calm W_alice) = Inr col_std \<and>
   passes_checks Immediate_py col_std 2 row_alice W_alice \<and>
   found_eligible E_retry (handle row_alice) W_alice \<and>
   row_calls_answered E_retry col_std 2 (handle row_alice) W_alice \<and>
   dm_events (new_events W_alice (snd (process_row Immediate_py E_retry col_std 2 row_alice W_alice))) =
     [DM ''alice'' subject_original (accept_message Immediate_py E_retry col_std 2 ''u/alice'' W_alice) False,
      DM ''alice'' subject_retry
         (accept_message Immediate_py E_retry col_std 2 ''u/alice'' W_alice @ retry_warning) True] \<and>
   cells (snd (process_row Immediate_py E_retry col_std 2 row_alice W_alice)) (2, col_std Status) =
     Some ''Processed'' \<and>
   cells (snd (process_row Immediate_py E_retry col_std 2 row_alice W_alice)) (2, col_std Dm_status) =
     Some sent_marker"
proof -
  have cm: "fst (setup_sheet Immediate_py E_calm W_alice) = Inr col_std" by (rule alice_setup)
  have pc: "passes_checks Immediate_py col_std 2 row_alice W_alice" by (rule alice_passes)
  have el: "found_eligible E_retry (handle row_alice) W_alice"
    unfolding alice_handle by (rule calm_eligible)
  have ra: "row_calls_answered E_retry col_std 2 (handle row_alice) W_alice"
    by (simp add: row_calls_answered_def reaches_delivery_def E_retry_def E_calm_def)
  have a: "\<not> accepts E_retry 7 ''alice''" "accepts E_retry (7 + 1) ''alice''"
    by (simp_all add: E_retry_def)
  have d: "dm_events (new_events W_alice (snd (process_row Immediate_py E_retry col_std 2 row_alice W_alice))) =
     [DM ''alice'' subject_original (accept_message Immediate_py E_retry col_std 2 ''u/alice'' W_alice) False,
      DM ''alice'' subject_retry
         (accept_message Immediate_py E_retry col_std 2 ''u/alice'' W_alice @ retry_warning) True]"
    unfolding accepted_row_dms [OF pc el] dm_events_retry alice_handle alice_retry_clock
    using a reaches_delivery_answered [OF ra] by (simp add: attempt_event_def)
  from delivery_attempts_and_status [where col = col_std, OF cm pc el] ra
  have "cells (snd (process_row Immediate_py E_retry col_std 2 row_alice W_alice)) (2, col_std Status) =
          Some ''Processed'' \<and>
        cells (snd (process_row Immediate_py E_retry col_std 2 row_alice W_alice)) (2, col_std Dm_status) =
          Some sent_marker"
    unfolding Let_def d by simp
  with cm pc el ra d show ?thesis by blast
qed

text \<open>
  C2 as it is stated fails when a status write raises: after a first attempt that
  succeeded, the write of \<open>Processed\<close> raises, the handler writes \<open>Error\<close>, and the
  delivery status stays empty.
\<close>

theorem delivered_row_status_fault:
  "passes_checks Main_py col_std 2 row_alice W_alice \<and>
   found_eligible E_status_fails (handle row_alice) W_alice \<and>
   dm_events (new_events W_alice (snd (process_row Main_py E_status_fails col_std 2 row_alice W_alice))) =
     [DM ''alice'' subject_original (accept_message Main_py E_status_fails col_std 2 ''u/alice'' W_alice) True] \<and>
   cells (snd (process_row Main_py E_status_fails col_std 2 row_alice W_alice)) (2, 4) = Some ''Error'' \<and>
   cells (snd (process_row Main_py E_status_fails col_std 2 row_alice W_alice)) (2, 5) = None"
proof -
  have f0: "\<not> api_fault E_status_fails (clock W_alice)"
    by (simp add: E_status_fails_def E_calm_def W_alice_def)
  have pc: "passes_checks Main_py col_std 2 row_alice W_alice" by (rule alice_passes)
  have el: "found_eligible E_status_fails (handle row_alice) W_alice"
    by (rule old_enough) (simp_all add: E_status_fails_def E_calm_def)
  have r: "reaches_delivery E_status_fails col_std 2 W_alice"
    by (simp add: reaches_delivery_def E_status_fails_def E_calm_def W_alice_def)
  have a: "accepts E_status_fails 7 ''alice''" by (simp add: E_status_fails_def E_calm_def)
  have d: "dm_events (new_events W_alice (snd (process_row Main_py E_status_fails col_std 2 row_alice W_alice))) =
     [DM ''alice'' subject_original (accept_message Main_py E_status_fails col_std 2 ''u/alice'' W_alice) True]"
    unfolding accepted_row_dms [OF pc el] dm_events_retry alice_handle alice_retry_clock
    using a r by (simp add: attempt_event_def)
  have t: "process_row_try Main_py E_status_fails col_std 2 row_alice W_alice =
           accept_row Main_py E_status_fails col_std 2 ''u/alice'' (after_checks col_std 2 ''u/alice'' W_alice)"
    using process_row_passes [OF f0 pc] el by (simp add: alice_handle)
  have c: "cells (snd (process_row Main_py E_status_fails col_std 2 row_alice W_alice)) (2, 4) = Some ''Error'' \<and>
           cells (snd (process_row Main_py E_status_fails col_std 2 row_alice W_alice)) (2, 5) = None"
    unfolding process_row_def t
    by (simp add: accept_row_def generate_code_def cell_def update_cell_def update_status_def
          choice_def upt3 send_dm_eq Let_def after_checks_def tick_def emit_def sleep_def
          col_std_def falsy_def E_status_fails_def E_calm_def W_alice_def)
  from pc el d c show ?thesis by blast
qed




text \<open>
  C4. Whatever way the account lookup fails (account not found, network error, rate limiting,
  any other exception), the \<open>try\<close> block of \<open>is_eligible\<close> ends in that failure and
  \<open>is_eligible\<close> itself returns \<open>False\<close>: never \<open>True\<close>, and never an exception, its result
  being a plain boolean.
\<close>

theorem is_eligible_fails_closed:
  assumes "account E (Suc (clock w)) (redditor_name username) = failure"
    and "\<forall>t. failure \<noteq> Created t"
  shows "fst (is_eligible_try E username w) = Inl failure \<and> fst (is_eligible E username w) = False"
  using assms
  by (cases failure) (simp_all add: is_eligible_def is_eligible_try_def Let_def tick_simps)

theorem is_eligible_fails_closed_witness:
  "account E_lost (Suc (clock W_empty)) (redditor_name ''u/ghost'') = NotFound \<and>
   (\<forall>t. NotFound \<noteq> Created t) \<and>
   fst (is_eligible_try E_lost ''u/ghost'' W_empty) = Inl NotFound \<and>
   fst (is_eligible E_lost ''u/ghost'' W_empty) = False"
proof -
  have a: "account E_lost (Suc (clock W_empty)) (redditor_name ''u/ghost'') = NotFound"
    by (simp add: E_lost_def E_calm_def)
  have b: "\<forall>t. NotFound \<noteq> Created t" by simp
  from is_eligible_fails_closed [OF a b] a b show ?thesis by simp
qed

text \<open>
  C5 (evaluation at a header row whose third name is \<open>code\<close>, in lower case). In
  immediate_response_script.py the lowered name matches, so no column is created; the final
  lookup of \<open>Code\<close> in the headers is exact, fails, and \<open>setup_sheet\<close> raises the configuration
  error, on which \<open>process_responses\<close> returns without reading a row. In main.py every
  match is exact: a sixth column is added for \<open>Code\<close> and the map points to it.
\<close>

theorem setup_sheet_lowercase_header:
  "fst (setup_sheet Immediate_py E_calm W_lowercase) =
     Inl (RuntimeError (''Missing critical column: '' @ [CHR 0x27] @ ''Code'' @ [CHR 0x27])) \<and>
   trace (snd (setup_sheet Immediate_py E_calm W_lowercase)) = [] \<and>
   process_responses Immediate_py E_calm W_lowercase = (Inr (), tick W_lowercase) \<and>
   (case fst (setup_sheet Main_py E_calm W_lowercase) of
      Inl e \<Rightarrow> False | Inr col \<Rightarrow> map col column_keys = [1, 2, 6, 4, 5]) \<and>
   trace (snd (setup_sheet Main_py E_calm W_lowercase)) = [AddCols 1, Update 11 6 [''Code'']]"
proof -
  have r: "row_values1 E_calm W_lowercase = (Inr (header W_lowercase), tick W_lowercase)"
    by (simp add: row_values1_def E_calm_def)
  have i: "setup_sheet Immediate_py E_calm W_lowercase =
        (Inl (RuntimeError (''Missing critical column: '' @ [CHR 0x27] @ ''Code'' @ [CHR 0x27])),
         tick W_lowercase)"
    unfolding setup_sheet_def r
    by (simp add: Let_def lowercase_stripped lowercase_new_immediate lowercase_final_immediate
          create_columns_def)
  have f: "\<not> api_fault E_calm n" for n by (simp add: E_calm_def)
  have m: "setup_sheet Main_py E_calm W_lowercase =
        (Inr (\<lambda>k. Suc (index_of (header W_lowercase @ [''Code'']) (column_name k))),
         snd (update E_calm 11 6 [''Code''] (snd (add_cols E_calm 1 (tick W_lowercase)))))"
    unfolding setup_sheet_def r
    by (simp add: Let_def lowercase_stripped lowercase_new_main lowercase_final_main
          create_columns_def add_cols_def update_def update_range_row_def f)
  have t: "trace W_lowercase = []" by (simp add: W_lowercase_def W_alice_def)
  have tm: "trace (snd (update E_calm 11 6 [''Code''] (snd (add_cols E_calm 1 (tick W_lowercase))))) =
            [AddCols 1, Update 11 6 [''Code'']]"
    by (simp add: add_cols_def update_def Let_def f tick_simps emit_simps t)
  have p: "process_responses Immediate_py E_calm W_lowercase = (Inr (), tick W_lowercase)"
    by (simp add: process_responses_def i)
  show ?thesis
    unfolding p unfolding i m
    using tm by (simp add: tick_simps t lowercase_final_main)
qed

text \<open>
  C6, with the conditions the code needs. For a row whose status read is answered, whose
  preference is accepted and whose handle passes the format check, found not eligible:
  exactly one delivery is attempted, an original (not a retry) that carries the rejection
  message, whether or not the platform accepts it (\<open>ok\<close>) and whatever the spreadsheet
  does afterwards. If the write of the status does not raise, the iteration ends normally
  with \<open>Rejected\<close> in the status cell and every other cell as it was.
\<close>

theorem ineligible_row_rejected:
  assumes f0: "\<not> api_fault E (clock w)"
    and pc: "passes_checks v col idx row w"
    and el: "\<not> found_eligible E (handle row) w"
  shows "let w' = snd (process_row v E col idx row w);
             joke = humor_rejections ! (pick E (clock w + 3) mod length humor_rejections);
             ok = accepts E (clock w + 4) (redditor_name (handle row))
         in dm_events (new_events w w') =
              [DM (redditor_name (handle row)) subject_original (rejection_msg v joke) ok] \<and>
            (\<not> api_fault E (clock w + 5) \<longrightarrow>
               fst (process_row v E col idx row w) = Inr () \<and>
               cells w' = (cells w)((idx, col Status) := Some ''Rejected''))"
  unfolding Let_def rejected_row_events [OF f0 pc el]
  using rejected_row_answered [OF f0 _ pc el]
  by (simp add: dm_events_append dm_events_simps dm_events_handler)

theorem ineligible_row_rejected_witness:
  "\<not> api_fault E_young (clock W_alice) \<and>
   passes_checks Main_py col_std 2 row_alice W_alice \<and>
   \<not> found_eligible E_young (handle row_alice) W_alice \<and>
   \<not> api_fault E_young (clock W_alice + 5) \<and>
   length (dm_events (new_events W_alice (snd (process_row Main_py E_young col_std 2 row_alice W_alice)))) = 1 \<and>
   fst (process_row Main_py E_young col_std 2 row_alice W_alice) = Inr () \<and>
   cells (snd (process_row Main_py E_young col_std 2 row_alice W_alice)) (2, col_std Status) = Some ''Rejected''"
proof -
  have nf0: "\<not> api_fault E_young (clock W_alice)" by (simp add: E_young_def E_calm_def)
  have nf5: "\<not> api_fault E_young (clock W_alice + 5)" by (simp add: E_young_def E_calm_def)
  have pc: "passes_checks Main_py col_std 2 row_alice W_alice" by (rule alice_passes)
  have el: "\<not> found_eligible E_young (handle row_alice) W_alice"
    unfolding alice_handle by (rule young_ineligible)
  from ineligible_row_rejected [where col = col_std, OF nf0 pc el] nf0 nf5 pc el
  show ?thesis by (simp add: Let_def)
qed

text \<open>
  C6 as it is stated fails when the write of \<open>Rejected\<close> raises: the handler then writes
  \<open>Error\<close>, which is the status the row ends with.
\<close>

theorem rejected_row_write_fault:
  "passes_checks Main_py col_std 2 row_alice W_alice \<and>
   \<not> found_eligible E_reject_fails (handle row_alice) W_alice \<and>
   new_events W_alice (snd (process_row Main_py E_reject_fails col_std 2 row_alice W_alice)) =
     [CellRead 2 4, Lookup ''alice'',
      DM ''alice'' subject_original (rejection_msg Main_py (humor_rejections ! 0)) False,
      CellWrite 2 4 ''Rejected'', CellWrite 2 4 ''Error''] \<and>
   cells (snd (process_row Main_py E_reject_fails col_std 2 row_alice W_alice)) (2, 4) = Some ''Error''"
proof -
  have f0: "\<not> api_fault E_reject_fails (clock W_alice)"
    by (simp add: E_reject_fails_def E_young_def E_calm_def W_alice_def)
  have pc: "passes_checks Main_py col_std 2 row_alice W_alice" by (rule alice_passes)
  have el: "\<not> found_eligible E_reject_fails (handle row_alice) W_alice"
    unfolding alice_handle
    by (simp add: found_eligible_def is_eligible_def is_eligible_try_def Let_def tick_simps
          E_reject_fails_def E_calm_def E_young_def W_alice_def us_per_day_def MIN_ACCOUNT_AGE_DAYS_def)
  have t: "process_row_try Main_py E_reject_fails col_std 2 row_alice W_alice =
           reject_row Main_py E_reject_fails col_std 2 ''u/alice'' (after_checks col_std 2 ''u/alice'' W_alice)"
    using process_row_passes [OF f0 pc] el by (simp add: alice_handle)
  have r: "cells (snd (process_row Main_py E_reject_fails col_std 2 row_alice W_alice)) (2, 4) = Some ''Error'' \<and>
           new_events W_alice (snd (process_row Main_py E_reject_fails col_std 2 row_alice W_alice)) =
     [CellRead 2 4, Lookup ''alice'',
      DM ''alice'' subject_original (rejection_msg Main_py (humor_rejections ! 0)) False,
      CellWrite 2 4 ''Rejected'', CellWrite 2 4 ''Error'']"
    unfolding process_row_def t
    by (simp add: reject_row_def choice_def send_dm_eq update_cell_def Let_def new_events_def
          after_checks_def tick_def emit_def sleep_def alice_handle col_std_def humor_rejections_def
          E_reject_fails_def E_young_def E_calm_def W_alice_def)
  from r pc el show ?thesis by blast
qed

text \<open>
  C7 (evaluation at a row whose first delivery attempt fails and whose second succeeds).
  main.py makes the second attempt right after the first: no delay stands between them.
  immediate_response_script.py, on the same row, sleeps 120 between the two. In both, the
  first attempt is an original, the second a retry, and nothing follows the success but the
  20 units of \<open>send_dm\<close>.
\<close>

theorem main_py_retries_without_delay:
  "schedule (new_events W_alice (snd (process_row Main_py E_retry col_std 2 row_alice W_alice))) =
     [DM ''alice'' subject_original (accept_message Main_py E_retry col_std 2 ''u/alice'' W_alice) False,
      DM ''alice'' subject_retry
         (accept_message Main_py E_retry col_std 2 ''u/alice'' W_alice @ retry_warning) True,
      Sleep 20] \<and>
   schedule (new_events W_alice (snd (process_row Immediate_py E_retry col_std 2 row_alice W_alice))) =
     [DM ''alice'' subject_original (accept_message Immediate_py E_retry col_std 2 ''u/alice'' W_alice) False,
      Sleep 120,
      DM ''alice'' subject_retry
         (accept_message Immediate_py E_retry col_std 2 ''u/alice'' W_alice @ retry_warning) True,
      Sleep 20]"
proof -
  have nf: "\<forall>n\<ge>clock W_alice. \<not> api_fault E_retry n" by (simp add: E_retry_def E_calm_def)
  have el: "found_eligible E_retry (handle row_alice) W_alice"
    unfolding alice_handle by (rule calm_eligible)
  have a: "\<not> accepts E_retry 7 ''alice''" "accepts E_retry (7 + 1) ''alice''"
    by (simp_all add: E_retry_def)
  show ?thesis
    unfolding accepted_schedule [OF nf alice_passes el] alice_handle alice_retry_clock
    using a by (simp add: retry_events_def attempt_event_def gap_def)
qed

text \<open>
  C8 (evaluation at the handle \<open>U/alice\<close>). The format check accepts the handle, since it
  compares the lower-cased handle with \<open>u/\<close>; the name looked up is cut at the last
  occurrence of the lower-case \<open>u/\<close> only, so the lookup is made on \<open>U/alice\<close>, prefix
  included, whatever the environment answers.
\<close>

theorem is_eligible_upper_prefix:
  "startswith (lower ''U/alice'') ''u/'' \<and>
   redditor_name ''U/alice'' = ''U/alice'' \<and>
   trace (snd (is_eligible E ''U/alice'' w)) = trace w @ [Lookup ''U/alice'']"
  by (cases "account E (Suc (clock w)) ''U/alice''")
     (simp_all add: text_defs is_eligible_def is_eligible_try_def tick_simps emit_simps)

text \<open>
  C9 (evaluation at a sheet of two rows, the spreadsheet failing from the third call of the
  run on). The status read of row 2 raises and is caught; the handler's own write of
  \<open>Error\<close> raises too, and nothing catches it inside the loop. In
  immediate_response_script.py the exception leaves \<open>process_responses\<close>; in main.py the
  outer handler ends the run. In both, row 2 does not get the status \<open>Error\<close> and row 3 is
  never looked at.
\<close>

theorem row_fault_ends_run:
  "length (records W_two) = 2 \<and>
   fst (process_responses Immediate_py E_down W_two) = Inl APIError \<and>
   trace (snd (process_responses Immediate_py E_down W_two)) = [CellRead 2 4, CellWrite 2 4 ''Error''] \<and>
   cells (snd (process_responses Immediate_py E_down W_two)) (2, 4) = None \<and>
   fst (process_responses Main_py E_down W_two) = Inr () \<and>
   trace (snd (process_responses Main_py E_down W_two)) = [CellRead 2 4, CellWrite 2 4 ''Error''] \<and>
   cells (snd (process_responses Main_py E_down W_two)) (2, 4) = None"
proof -
  have h: "header W_two = map column_name column_keys" by (simp add: W_two_def W_alice_def)
  have f0: "\<not> api_fault E_down (clock W_two)" by (simp add: E_down_def W_two_def W_alice_def)
  have s: "setup_sheet v E_down W_two = (Inr col_std, tick W_two)" for v
    by (rule setup_sheet_std [OF h f0])
  have g: "get_all_records E_down (tick W_two) = (Inr [row_alice, row_bob], tick (tick W_two))"
    by (simp add: get_all_records_def tick_simps E_down_def W_two_def W_alice_def)
  have d: "api_fault E_down (clock (tick (tick W_two)))" "api_fault E_down (Suc (clock (tick (tick W_two))))"
    by (simp_all add: tick_simps E_down_def W_two_def W_alice_def)
  have r: "run_rows v E_down col_std (tick W_two) =
             (Inl APIError, tick (emit (CellWrite 2 (col_std Status) ''Error'')
                (tick (emit (CellRead 2 (col_std Status)) (tick (tick W_two))))))" for v
    by (simp add: run_rows_def g process_row_sheet_down [OF d])
  have w: "trace W_two = []" "cells W_two (2, 4) = None" "length (records W_two) = 2"
    by (simp_all add: W_two_def W_alice_def)
  show ?thesis
    by (simp add: process_responses_def s r tick_simps emit_simps col_std_def w)
qed



end
